theory Spec2Isabelle
  imports Complex_Main
begin

section \<open>The ledger store\<close>

text \<open>
  The tables of \<^verbatim>\<open>database/schema.sql\<close>, of the schema update and of the TTS migration,
  with the columns the metering code reads and writes. A calendar day (\<^verbatim>\<open>DATE\<close>,
  \<^verbatim>\<open>'YYYY-MM-DD'\<close>) is a day number; the order of day numbers is the order of dates.
  A \<^verbatim>\<open>DECIMAL(10, 2)\<close> value is a rational; every write to such a column goes through the
  cast \<open>numeric_10_2\<close>. A nullable column is an \<open>option\<close>.
\<close>

type_synonym day = nat

datatype role = Admin | Student

record user_row =
  u_id :: int
  u_role :: role
  minutes_limit :: "int option"

record usage_row =
  row_id :: nat
  user_id :: int
  date :: day
  minutes_used :: rat

record tts_row =
  tts_user_id :: int
  created_at :: day

type_synonym js_string = "nat list"

record db =
  users :: "user_row list"
  usage :: "usage_row list"
  tts_usage :: "tts_row list"
  api_configs :: "(string \<times> js_string option) list"

datatype db_error =
    Not_Null_Violation
  | Foreign_Key_Violation
  | Unique_Violation
  | Check_Violation
  | Numeric_Overflow
  | Connection_Lost

text \<open>
  Assignment to \<^verbatim>\<open>minutes_used DECIMAL(10, 2)\<close>: the value is rounded to two fractional
  digits, ties away from zero, and a rounded value of \<open>10\<^sup>8\<close> or more in absolute value
  is the error "numeric field overflow".
\<close>

definition round2 :: "rat \<Rightarrow> rat" where
  "round2 x = sgn x * of_int \<lfloor>\<bar>x\<bar> * 100 + 1 / 2\<rfloor> / 100"

definition numeric_10_2 :: "rat \<Rightarrow> rat option" where
  "numeric_10_2 x = (let r = round2 x in if \<bar>r\<bar> < 10 ^ 8 then Some r else None)"

text \<open>
  \<^verbatim>\<open>SELECT id, minutes_used FROM usage WHERE user_id = $1 AND date = $2\<close>.
  The parameter \<open>$1\<close> is \<open>None\<close> when the handler passes \<^verbatim>\<open>undefined\<close>, which the
  driver sends as \<^verbatim>\<open>NULL\<close>: the comparison with \<^verbatim>\<open>NULL\<close> holds for no row.
\<close>

definition select_usage :: "db \<Rightarrow> int option \<Rightarrow> day \<Rightarrow> usage_row list" where
  "select_usage s uid d = filter (\<lambda>r. Some (user_id r) = uid \<and> date r = d) (usage s)"

text \<open>
  \<^verbatim>\<open>UPDATE usage SET minutes_used = minutes_used + $1 WHERE id = $2\<close>, under
  \<^verbatim>\<open>CONSTRAINT positive_minutes CHECK (minutes_used >= 0)\<close>. A failing row fails the
  statement, which then changes nothing.
\<close>

fun update_rows :: "rat \<Rightarrow> nat \<Rightarrow> usage_row list \<Rightarrow> db_error + usage_row list" where
  "update_rows a i [] = Inr []"
| "update_rows a i (r # rs) =
     (if row_id r = i then
        (case numeric_10_2 (minutes_used r + a) of
           None \<Rightarrow> Inl Numeric_Overflow
         | Some v \<Rightarrow>
             if v < 0 then Inl Check_Violation
             else (case update_rows a i rs of
                     Inl e \<Rightarrow> Inl e
                   | Inr rs' \<Rightarrow> Inr (r\<lparr>minutes_used := v\<rparr> # rs')))
      else (case update_rows a i rs of
              Inl e \<Rightarrow> Inl e
            | Inr rs' \<Rightarrow> Inr (r # rs')))"

definition update_usage :: "db \<Rightarrow> rat \<Rightarrow> nat \<Rightarrow> db_error + db" where
  "update_usage s a i =
     (case update_rows a i (usage s) of
        Inl e \<Rightarrow> Inl e
      | Inr rs \<Rightarrow> Inr (s\<lparr>usage := rs\<rparr>))"

text \<open>
  \<^verbatim>\<open>INSERT INTO usage (user_id, date, minutes_used) VALUES ($1, $2, $3)\<close>, under
  \<^verbatim>\<open>user_id INTEGER NOT NULL REFERENCES users(id)\<close>, the cast of the value, the check
  \<^verbatim>\<open>positive_minutes\<close> and \<^verbatim>\<open>CONSTRAINT unique_user_date UNIQUE(user_id, date)\<close>.
  The new row takes the next value of the \<^verbatim>\<open>SERIAL\<close> id.
\<close>

definition next_id :: "usage_row list \<Rightarrow> nat" where
  "next_id rs = Suc (foldr max (map row_id rs) 0)"

definition insert_usage :: "db \<Rightarrow> int option \<Rightarrow> day \<Rightarrow> rat \<Rightarrow> db_error + db" where
  "insert_usage s uid d a =
     (case uid of
        None \<Rightarrow> Inl Not_Null_Violation
      | Some u \<Rightarrow>
          (case numeric_10_2 a of
             None \<Rightarrow> Inl Numeric_Overflow
           | Some v \<Rightarrow>
               if v < 0 then Inl Check_Violation
               else if select_usage s uid d \<noteq> [] then Inl Unique_Violation
               else if u \<notin> set (map u_id (users s)) then Inl Foreign_Key_Violation
               else Inr (s\<lparr>usage := usage s @
                      [\<lparr>row_id = next_id (usage s), user_id = u, date = d, minutes_used = v\<rparr>]\<rparr>)))"

subsection \<open>The usage recorder\<close>

text \<open>
  The record step of \<^verbatim>\<open>POST /api/user/usage\<close> and of \<^verbatim>\<open>POST /api/chat\<close>, the same
  statements in both: select the row of (user, today); if there is one, update it by
  its id, otherwise insert. \<open>faulty\<close> is a fault of the store itself (a lost
  connection), which makes the first statement throw.
\<close>

definition recordMinutes :: "bool \<Rightarrow> db \<Rightarrow> int option \<Rightarrow> day \<Rightarrow> rat \<Rightarrow> db_error + db" where
  "recordMinutes faulty s uid today amount =
     (if faulty then Inl Connection_Lost
      else (case select_usage s uid today of
              r # _ \<Rightarrow> update_usage s amount (row_id r)
            | [] \<Rightarrow> insert_usage s uid today amount))"

text \<open>
  The value stored for (user, day): \<open>minutes_used\<close> of the row the recorder selects.
\<close>

definition stored :: "db \<Rightarrow> int \<Rightarrow> day \<Rightarrow> rat option" where
  "stored s u d = (case select_usage s (Some u) d of [] \<Rightarrow> None | r # _ \<Rightarrow> Some (minutes_used r))"

text \<open>
  A sequence of recordings for one (user, day), one request after the other. A
  recording that fails leaves the store as it was, and the next request runs on it.
\<close>

fun record_seq :: "db \<Rightarrow> int \<Rightarrow> day \<Rightarrow> rat list \<Rightarrow> db" where
  "record_seq s u d [] = s"
| "record_seq s u d (a # as) =
     record_seq (case recordMinutes False s (Some u) d a of Inl _ \<Rightarrow> s | Inr s' \<Rightarrow> s') u d as"

section \<open>Tokens and requests\<close>

text \<open>
  JavaScript values as far as the handlers use them. A number is \<open>JInt\<close> when it is an
  integer (ids, counts, limits, timestamps) and \<open>JDec\<close> when it is a minute amount; a
  fixed message is \<open>JStr\<close>, a text that passes through (a string of UTF-16 code units)
  is \<open>JText\<close>. An object is the list of its properties, and reading a property it does
  not have gives \<^verbatim>\<open>undefined\<close>, here \<open>None\<close>.
\<close>

datatype jval = JInt int | JDec rat | JStr string | JText js_string | JBool bool | JNull

type_synonym obj = "(string \<times> jval) list"

definition get_prop :: "obj \<Rightarrow> string \<Rightarrow> jval option" where
  "get_prop ob k = map_of ob k"

text \<open>
  A value handed to a query as the parameter of an \<^verbatim>\<open>INTEGER\<close> column: an integer as
  itself, \<^verbatim>\<open>undefined\<close> and \<^verbatim>\<open>null\<close> as \<^verbatim>\<open>NULL\<close>. (The handlers pass nothing else:
  the properties they read hold an integer or are absent.)
\<close>

fun param_int :: "jval option \<Rightarrow> int option" where
  "param_int (Some (JInt n)) = Some n"
| "param_int _ = None"

record response =
  status :: nat
  json :: obj

text \<open>
  \<^verbatim>\<open>jwt.sign({ userId: user.id, email: user.email, role: user.role }, secret,
  { expiresIn: '30d' })\<close> of register and login: the payload, with the issue time and
  the expiry the library adds. A token is its payload and whether its signature is the
  server's.
\<close>

record token =
  payload :: obj
  signed :: bool

definition role_name :: "role \<Rightarrow> string" where
  "role_name r = (case r of Admin \<Rightarrow> ''admin'' | Student \<Rightarrow> ''student'')"

definition jwt_sign :: "int \<Rightarrow> string \<Rightarrow> role \<Rightarrow> int \<Rightarrow> token" where
  "jwt_sign uid email r now =
     \<lparr>payload = [(''userId'', JInt uid), (''email'', JStr email), (''role'', JStr (role_name r)),
                 (''iat'', JInt now), (''exp'', JInt (now + 30 * 86400))],
      signed = True\<rparr>"

definition jwt_verify :: "int \<Rightarrow> token \<Rightarrow> obj option" where
  "jwt_verify now t =
     (if signed t \<and> (case get_prop (payload t) ''exp'' of Some (JInt x) \<Rightarrow> now < x | _ \<Rightarrow> True)
      then Some (payload t) else None)"

text \<open>
  \<^verbatim>\<open>authenticate\<close>: without a token 401, with a token that does not verify 401,
  otherwise \<^verbatim>\<open>req.user = decoded\<close>.
\<close>

definition authenticate :: "int \<Rightarrow> token option \<Rightarrow> response + obj" where
  "authenticate now tok =
     (case tok of
        None \<Rightarrow> Inl \<lparr>status = 401, json = [(''error'', JStr ''Token mancante'')]\<rparr>
      | Some t \<Rightarrow>
          (case jwt_verify now t of
             None \<Rightarrow> Inl \<lparr>status = 401, json = [(''error'', JStr ''Token non valido'')]\<rparr>
           | Some decoded \<Rightarrow> Inr decoded))"

text \<open>
  What a handler is run in: the two dates it computes from \<^verbatim>\<open>new Date()\<close>, the date of
  \<^verbatim>\<open>NOW()\<close> at the store, whether \<^verbatim>\<open>pool.connect()\<close> rejects, whether the store's reads
  and writes throw, and whether a Google API key is configured.
\<close>

record env =
  connect_fault :: bool
  today :: day
  firstDayOfMonth :: day
  db_now :: day
  read_fault :: bool
  write_fault :: bool
  apiKey :: bool

text \<open>
  What \<^verbatim>\<open>fetch\<close> gives the conversation handler: it throws, or a reply with its HTTP
  status, its body as text, and \<^verbatim>\<open>data.content[0].text\<close> of the body as JSON, \<open>None\<close>
  when parsing the body or reading that field throws.
\<close>

datatype http_reply = Unreachable | Reply nat js_string "js_string option"

text \<open>
  What \<^verbatim>\<open>fetch\<close> gives the text-to-speech handler: it throws, or a reply with its HTTP
  status and its body as \<^verbatim>\<open>response.json()\<close> reads it. The read throws on a body that is
  not JSON; the body \<^verbatim>\<open>null\<close> is read, and reading \<^verbatim>\<open>data.audioContent\<close> of it throws;
  of every other value the field is read, as a text or as \<^verbatim>\<open>undefined\<close> (\<open>None\<close>).
\<close>

datatype json_body = Unparsable | Json_Null | Json_Object "js_string option"

datatype tts_reply = Tts_Unreachable | Tts_Reply nat json_body

definition ok :: "nat \<Rightarrow> bool" where
  "ok st = (200 \<le> st \<and> st \<le> 299)"

text \<open>
  What one invocation that answers leaves: the response, the store, the lines written
  with \<^verbatim>\<open>console.error\<close>, and whether the downstream provider was called. A handler
  acquires its client with \<^verbatim>\<open>await pool.connect()\<close> outside its \<^verbatim>\<open>try\<close>; when that
  rejects, the invocation sends no response, calls nothing and writes nothing: its
  result is \<open>None\<close>.
\<close>

record outcome =
  resp :: response
  store :: db
  logged :: "string list"
  called :: bool

text \<open>\<^verbatim>\<open>!message\<close>, \<^verbatim>\<open>!text\<close>: true of a missing and of an empty string.\<close>

definition missing :: "js_string option \<Rightarrow> bool" where
  "missing v = (case v of None \<Rightarrow> True | Some t \<Rightarrow> t = [])"

text \<open>The store after an invocation that started in \<open>s\<close>.\<close>

definition store_after :: "db \<Rightarrow> outcome option \<Rightarrow> db" where
  "store_after s res = (case res of None \<Rightarrow> s | Some out \<Rightarrow> store out)"

section \<open>The usage endpoint\<close>

text \<open>
  \<^verbatim>\<open>app.post('/api/user/usage', authenticate, ...)\<close> after \<^verbatim>\<open>authenticate\<close>:
  \<^verbatim>\<open>minutes\<close> must be a number above 0 (\<open>None\<close> is a body without such a number), then
  the client is acquired and the record step runs with the amount as sent.
\<close>

definition post_usage :: "db \<Rightarrow> env \<Rightarrow> obj \<Rightarrow> rat option \<Rightarrow> outcome option" where
  "post_usage s e user minutes =
     (case minutes of
        None \<Rightarrow>
          Some \<lparr>resp = \<lparr>status = 400, json = [(''error'', JStr ''Minuti non validi'')]\<rparr>,
                store = s, logged = [], called = False\<rparr>
      | Some m \<Rightarrow>
          if m \<le> 0 then
            Some \<lparr>resp = \<lparr>status = 400, json = [(''error'', JStr ''Minuti non validi'')]\<rparr>,
                  store = s, logged = [], called = False\<rparr>
          else if connect_fault e then None
          else
            (case recordMinutes (write_fault e) s (param_int (get_prop user ''userId''))
                    (today e) m of
               Inl err \<Rightarrow>
                 Some \<lparr>resp = \<lparr>status = 500,
                                json = [(''error'', JStr ''Errore registrazione utilizzo'')]\<rparr>,
                       store = s, logged = [''Add usage error:''], called = False\<rparr>
             | Inr s' \<Rightarrow>
                 Some \<lparr>resp = \<lparr>status = 200,
                                json = [(''message'', JStr ''Utilizzo registrato''),
                                        (''minutes_added'', JDec m)]\<rparr>,
                       store = s', logged = [], called = False\<rparr>))"

section \<open>The conversation endpoint\<close>

subsection \<open>Admission\<close>

text \<open>
  The pre-flight check of \<^verbatim>\<open>POST /api/chat\<close>. The queries are keyed by
  \<^verbatim>\<open>req.user.userId\<close>:
  \<^verbatim>\<open>SELECT COALESCE(SUM(minutes_used), 0) as total FROM usage
  WHERE user_id = $1 AND date >= $2\<close> and
  \<^verbatim>\<open>SELECT minutes_limit FROM users WHERE id = $1\<close>.
  The total is a sum of \<^verbatim>\<open>DECIMAL(10, 2)\<close> values and the limit an integer;
  \<^verbatim>\<open>parseFloat\<close> of such a total compares with an integer as the total itself does.
\<close>

definition monthly_total :: "db \<Rightarrow> int option \<Rightarrow> day \<Rightarrow> rat" where
  "monthly_total s uid first =
     sum_list (map minutes_used
       (filter (\<lambda>r. Some (user_id r) = uid \<and> first \<le> date r) (usage s)))"

definition select_limit :: "db \<Rightarrow> int option \<Rightarrow> int option list" where
  "select_limit s uid = map minutes_limit (filter (\<lambda>u. Some (u_id u) = uid) (users s))"

text \<open>
  \<^verbatim>\<open>userLimits.rows[0]?.minutes_limit || 120\<close>: 120 when there is no row, when the column
  is \<^verbatim>\<open>NULL\<close>, and when it is 0.
\<close>

definition or_120 :: "int option list \<Rightarrow> int" where
  "or_120 rows =
     (case rows of
        [] \<Rightarrow> 120
      | None # _ \<Rightarrow> 120
      | Some n # _ \<Rightarrow> if n = 0 then 120 else n)"

record admission =
  admitted :: bool
  monthlyUsed :: rat
  monthlyLimit :: int

definition admitConversation :: "db \<Rightarrow> env \<Rightarrow> obj \<Rightarrow> admission" where
  "admitConversation s e user =
     (let userId = param_int (get_prop user ''userId'');
          monthlyMinutes = monthly_total s userId (firstDayOfMonth e);
          minutesLimit = or_120 (select_limit s userId)
      in \<lparr>admitted = \<not> (monthlyMinutes \<ge> of_int minutesLimit),
          monthlyUsed = monthlyMinutes,
          monthlyLimit = minutesLimit\<rparr>)"

subsection \<open>Cost\<close>

text \<open>
  The code units that \<^verbatim>\<open>\s\<close> matches: tab, line feed, vertical tab, form feed,
  carriage return, space, no-break space, U+1680, U+2000 to U+200A, the line and
  paragraph separators, U+202F, U+205F, U+3000 and the byte order mark.
\<close>

definition js_space :: "nat \<Rightarrow> bool" where
  "js_space c = (c \<in> {9, 10, 11, 12, 13, 32, 160, 5760, 8232, 8233, 8239, 8287, 12288, 65279}
                 \<or> (8192 \<le> c \<and> c \<le> 8202))"

text \<open>
  \<^verbatim>\<open>assistantMessage.split(/\s+/)\<close>: the pieces between the maximal runs of white
  space, an empty piece before a run that starts the text and after a run that ends
  it; the empty text has one (empty) piece. The flag says that the code unit before
  was white space.
\<close>

fun split_from :: "bool \<Rightarrow> js_string \<Rightarrow> js_string list" where
  "split_from in_run [] = [[]]"
| "split_from in_run (c # cs) =
     (if js_space c then
        (if in_run then split_from True cs else [] # split_from True cs)
      else (case split_from False cs of
              p # ps \<Rightarrow> (c # p) # ps
            | [] \<Rightarrow> [[c]]))"

definition split_ws :: "js_string \<Rightarrow> js_string list" where
  "split_ws t = split_from False t"

definition wordCount :: "js_string \<Rightarrow> nat" where
  "wordCount assistantMessage = length (split_ws assistantMessage)"

text \<open>
  \<^verbatim>\<open>Math.round((wordCount / 150) * 100) / 100\<close>. \<^verbatim>\<open>Math.round\<close> rounds to the nearest
  integer, ties upwards. The exact value of \<^verbatim>\<open>(wordCount / 150) * 100\<close> is a multiple of
  a third, so it is never near a tie and the rounding of the floating-point product is
  the rounding of the exact one; the quotient by 100 is written, in the response and in
  the query, as the decimal with two fractional digits.
\<close>

definition Math_round :: "rat \<Rightarrow> int" where
  "Math_round x = \<lfloor>x + 1 / 2\<rfloor>"

definition estimatedMinutes :: "js_string \<Rightarrow> rat" where
  "estimatedMinutes assistantMessage =
     of_int (Math_round ((of_nat (wordCount assistantMessage) / 150) * 100)) / 100"

subsection \<open>The handler\<close>

record chat_req =
  chat_user :: obj
  message :: "js_string option"

definition chat_catch :: "db \<Rightarrow> bool \<Rightarrow> outcome" where
  "chat_catch s fetched =
     \<lparr>resp = \<lparr>status = 500, json = [(''error'', JStr ''Errore durante la chat'')]\<rparr>,
      store = s, logged = [''Chat error:''], called = fetched\<rparr>"

text \<open>
  The \<^verbatim>\<open>try\<close> block of \<^verbatim>\<open>app.post('/api/chat', authenticate, ...)\<close> with its
  \<^verbatim>\<open>catch\<close>. The materials and the student level only build the prompt and the fields
  \<^verbatim>\<open>level\<close> and \<^verbatim>\<open>materials_used\<close> of the answer; they are left out, and their queries
  are among the reads that \<open>read_fault\<close> makes throw.
\<close>

definition chat_try :: "db \<Rightarrow> env \<Rightarrow> http_reply \<Rightarrow> chat_req \<Rightarrow> outcome" where
  "chat_try s e anthropicResponse req =
     (if read_fault e then chat_catch s False
      else
        let a = admitConversation s e (chat_user req) in
        if \<not> admitted a then
          \<lparr>resp = \<lparr>status = 429,
                    json = [(''error'', JStr ''Limite mensile raggiunto''),
                            (''minutes_used'', JDec (monthlyUsed a)),
                            (''minutes_limit'', JInt (monthlyLimit a))]\<rparr>,
           store = s, logged = [], called = False\<rparr>
        else
          (case anthropicResponse of
             Unreachable \<Rightarrow> chat_catch s True
           | Reply st errorData content \<Rightarrow>
               if \<not> ok st then
                 \<lparr>resp = \<lparr>status = st,
                           json = [(''error'', JStr ''Errore API Anthropic''),
                                   (''details'', JText errorData)]\<rparr>,
                  store = s, logged = [''Anthropic API error:''], called = True\<rparr>
               else
                 (case content of
                    None \<Rightarrow> chat_catch s True
                  | Some assistantMessage \<Rightarrow>
                      (case recordMinutes (write_fault e) s
                              (param_int (get_prop (chat_user req) ''userId'')) (today e)
                              (estimatedMinutes assistantMessage) of
                         Inl err \<Rightarrow> chat_catch s True
                       | Inr s' \<Rightarrow>
                           \<lparr>resp = \<lparr>status = 200,
                                     json = [(''response'', JText assistantMessage),
                                             (''minutes_used'',
                                                JDec (estimatedMinutes assistantMessage))]\<rparr>,
                            store = s', logged = [], called = True\<rparr>))))"

text \<open>
  The handler after \<^verbatim>\<open>authenticate\<close>: the check of the message, the client, the
  \<^verbatim>\<open>try\<close> block.
\<close>

definition chat :: "db \<Rightarrow> env \<Rightarrow> http_reply \<Rightarrow> chat_req \<Rightarrow> outcome option" where
  "chat s e anthropicResponse req =
     (if missing (message req) then
        Some \<lparr>resp = \<lparr>status = 400, json = [(''error'', JStr ''Messaggio richiesto'')]\<rparr>,
              store = s, logged = [], called = False\<rparr>
      else if connect_fault e then None
      else Some (chat_try s e anthropicResponse req))"

section \<open>The text-to-speech endpoint\<close>

subsection \<open>Admission\<close>

text \<open>
  \<^verbatim>\<open>parseInt(string)\<close> without a radix: leading white space is skipped, a sign is
  read, a prefix \<^verbatim>\<open>0x\<close> or \<^verbatim>\<open>0X\<close> selects radix 16, and the longest run of digits
  of the radix is the value; without a digit the result is \<^verbatim>\<open>NaN\<close>, here \<open>None\<close>.
  \<^verbatim>\<open>null\<close> is read as the text \<^verbatim>\<open>null\<close>, which has no digit.
\<close>

definition digit_of :: "nat \<Rightarrow> nat \<Rightarrow> nat option" where
  "digit_of R c =
     (let v = (if 48 \<le> c \<and> c \<le> 57 then c - 48
               else if 97 \<le> c \<and> c \<le> 122 then c - 87
               else if 65 \<le> c \<and> c \<le> 90 then c - 55
               else R)
      in if v < R then Some v else None)"

fun read_digits :: "nat \<Rightarrow> nat \<Rightarrow> js_string \<Rightarrow> nat" where
  "read_digits R acc [] = acc"
| "read_digits R acc (c # cs) =
     (case digit_of R c of
        None \<Rightarrow> acc
      | Some v \<Rightarrow> read_digits R (acc * R + v) cs)"

definition parse_digits :: "nat \<Rightarrow> js_string \<Rightarrow> nat option" where
  "parse_digits R z =
     (case z of
        [] \<Rightarrow> None
      | c # _ \<Rightarrow> (case digit_of R c of None \<Rightarrow> None | Some _ \<Rightarrow> Some (read_digits R 0 z)))"

definition parseInt :: "js_string option \<Rightarrow> int option" where
  "parseInt v =
     (case v of
        None \<Rightarrow> None
      | Some str \<Rightarrow>
          (let S = dropWhile js_space str;
               negative = (case S of c # _ \<Rightarrow> c = 45 | [] \<Rightarrow> False);
               S1 = (case S of c # cs \<Rightarrow> if c = 43 \<or> c = 45 then cs else S | [] \<Rightarrow> S);
               hex = (case S1 of a # b # _ \<Rightarrow> a = 48 \<and> (b = 120 \<or> b = 88) | _ \<Rightarrow> False);
               number = (if hex then parse_digits 16 (drop 2 S1) else parse_digits 10 S1)
           in (case number of
                 None \<Rightarrow> None
               | Some n \<Rightarrow> Some (if negative then - int n else int n))))"

text \<open>
  \<^verbatim>\<open>SELECT COUNT(*) as count FROM tts_usage WHERE user_id = $1 AND DATE(created_at) = $2\<close>,
  read through \<^verbatim>\<open>parseInt\<close>: the number of rows.
\<close>

definition count_tts :: "db \<Rightarrow> int option \<Rightarrow> day \<Rightarrow> nat" where
  "count_tts s uid d =
     length (filter (\<lambda>r. Some (tts_user_id r) = uid \<and> created_at r = d) (tts_usage s))"

text \<open>\<^verbatim>\<open>usedToday >= dailyLimit\<close>: false when the limit is \<^verbatim>\<open>NaN\<close>.\<close>

definition reached :: "nat \<Rightarrow> int option \<Rightarrow> bool" where
  "reached used bound = (case bound of None \<Rightarrow> False | Some l \<Rightarrow> int used \<ge> l)"

record tts_admission =
  tts_admitted :: bool
  usedToday :: nat
  dailyLimit :: "int option"

text \<open>
  The pre-flight check of \<^verbatim>\<open>POST /api/tts\<close>, with \<^verbatim>\<open>const userId = req.user.id\<close>. The
  limit is \<^verbatim>\<open>settingsResult.rows.length > 0 ? parseInt(settingsResult.rows[0].config_value)
  : 15\<close>; \<^verbatim>\<open>config_key\<close> is unique.
\<close>

definition admitTTS :: "db \<Rightarrow> env \<Rightarrow> obj \<Rightarrow> tts_admission" where
  "admitTTS s e user =
     (let userId = param_int (get_prop user ''id'');
          limit = (case map_of (api_configs s) ''tts_daily_limit'' of
                     None \<Rightarrow> Some 15
                   | Some config_value \<Rightarrow> parseInt config_value);
          used = count_tts s userId (today e)
      in \<lparr>tts_admitted = \<not> reached used limit, usedToday = used, dailyLimit = limit\<rparr>)"

subsection \<open>Recording\<close>

text \<open>
  \<^verbatim>\<open>INSERT INTO tts_usage (user_id, created_at) VALUES ($1, NOW())\<close> under
  \<^verbatim>\<open>user_id INTEGER NOT NULL REFERENCES users(id)\<close>, and \<^verbatim>\<open>trackTTSUsage\<close>, which
  catches what the statement throws and logs it. It returns the store and the lines
  logged.
\<close>

definition insert_tts :: "db \<Rightarrow> int option \<Rightarrow> day \<Rightarrow> db_error + db" where
  "insert_tts s uid now =
     (case uid of
        None \<Rightarrow> Inl Not_Null_Violation
      | Some u \<Rightarrow>
          if u \<notin> set (map u_id (users s)) then Inl Foreign_Key_Violation
          else Inr (s\<lparr>tts_usage := tts_usage s @ [\<lparr>tts_user_id = u, created_at = now\<rparr>]\<rparr>))"

definition trackTTSUsage :: "bool \<Rightarrow> db \<Rightarrow> int option \<Rightarrow> day \<Rightarrow> db \<times> string list" where
  "trackTTSUsage faulty s userId now =
     (case (if faulty then Inl Connection_Lost else insert_tts s userId now) of
        Inl err \<Rightarrow> (s, [''Track TTS usage error:''])
      | Inr s' \<Rightarrow> (s', []))"

subsection \<open>The handler\<close>

record tts_req =
  tts_user :: obj
  tts_text :: "js_string option"

definition tts_catch :: "db \<Rightarrow> bool \<Rightarrow> string list \<Rightarrow> outcome" where
  "tts_catch s fetched earlier =
     \<lparr>resp = \<lparr>status = 500,
               json = [(''error'', JStr ''Text-to-speech failed''),
                       (''fallbackToLocal'', JBool True)]\<rparr>,
      store = s, logged = earlier @ [''TTS error:''], called = fetched\<rparr>"

text \<open>
  The \<^verbatim>\<open>try\<close> block of \<^verbatim>\<open>app.post('/api/tts', authenticate, ...)\<close> of the TTS
  migration, with its \<^verbatim>\<open>catch\<close>. The choice of the voice and the field \<^verbatim>\<open>voiceUsed\<close>
  of the answer are left out. On a reply that is not ok the handler reads the body as
  JSON, logs it and throws; when that read throws, only the catch logs. On an ok reply
  the handler reads the body as JSON, then tracks the usage, then builds the answer
  from \<^verbatim>\<open>data.audioContent\<close>: on the body \<^verbatim>\<open>null\<close> that last step throws, after the
  tracking, and a field that is \<^verbatim>\<open>undefined\<close> is not part of the answer.
\<close>

definition tts_try :: "db \<Rightarrow> env \<Rightarrow> tts_reply \<Rightarrow> tts_req \<Rightarrow> outcome" where
  "tts_try s e response req =
     (if missing (tts_text req) then
        \<lparr>resp = \<lparr>status = 400, json = [(''error'', JStr ''Text is required'')]\<rparr>,
         store = s, logged = [], called = False\<rparr>
      else if read_fault e then tts_catch s False []
      else
        let a = admitTTS s e (tts_user req) in
        if \<not> tts_admitted a then
          \<lparr>resp = \<lparr>status = 429,
                    json = [(''error'', JStr ''Daily premium TTS limit reached''),
                            (''usedToday'', JInt (int (usedToday a))),
                            (''dailyLimit'', (case dailyLimit a of None \<Rightarrow> JNull | Some l \<Rightarrow> JInt l)),
                            (''fallbackToLocal'', JBool True)]\<rparr>,
           store = s, logged = [], called = False\<rparr>
        else if \<not> apiKey e then tts_catch s False []
        else
          (case response of
             Tts_Unreachable \<Rightarrow> tts_catch s True []
           | Tts_Reply st data \<Rightarrow>
               if \<not> ok st then
                 (case data of
                    Unparsable \<Rightarrow> tts_catch s True []
                  | Json_Null \<Rightarrow> tts_catch s True [''TTS API error:'']
                  | Json_Object _ \<Rightarrow> tts_catch s True [''TTS API error:''])
               else
                 (case data of
                    Unparsable \<Rightarrow> tts_catch s True []
                  | Json_Null \<Rightarrow>
                      (case trackTTSUsage (write_fault e) s
                              (param_int (get_prop (tts_user req) ''id'')) (db_now e) of
                         (s', lines) \<Rightarrow> tts_catch s' True lines)
                  | Json_Object audioContent \<Rightarrow>
                      (case trackTTSUsage (write_fault e) s
                              (param_int (get_prop (tts_user req) ''id'')) (db_now e) of
                         (s', lines) \<Rightarrow>
                           \<lparr>resp = \<lparr>status = 200,
                                     json = (case audioContent of
                                               None \<Rightarrow> []
                                             | Some audio \<Rightarrow> [(''audioContent'', JText audio)]) @
                                            [(''usedToday'', JInt (int (usedToday a) + 1)),
                                             (''dailyLimit'',
                                                (case dailyLimit a of None \<Rightarrow> JNull | Some l \<Rightarrow> JInt l))]\<rparr>,
                            store = s', logged = lines, called = True\<rparr>))))"

text \<open>
  The handler after \<^verbatim>\<open>authenticate\<close>: the client, acquired before anything else, then
  the \<^verbatim>\<open>try\<close> block.
\<close>

definition tts :: "db \<Rightarrow> env \<Rightarrow> tts_reply \<Rightarrow> tts_req \<Rightarrow> outcome option" where
  "tts s e response req =
     (if connect_fault e then None else Some (tts_try s e response req))"

section \<open>Concurrent recordings\<close>

text \<open>
  The record step is two statements, and each statement is atomic at the store. A
  worker is at its start, has selected, is done, or has failed with what its write
  threw. A schedule is the list of the workers that take the next step, in order.
\<close>

datatype worker = Start | Selected "usage_row list" | Done | Failed db_error

definition worker_step :: "int option \<Rightarrow> day \<Rightarrow> rat \<Rightarrow> db \<Rightarrow> worker \<Rightarrow> db \<times> worker" where
  "worker_step uid d a s w =
     (case w of
        Start \<Rightarrow> (s, Selected (select_usage s uid d))
      | Selected existing \<Rightarrow>
          (case (case existing of
                   r # _ \<Rightarrow> update_usage s a (row_id r)
                 | [] \<Rightarrow> insert_usage s uid d a) of
             Inl e \<Rightarrow> (s, Failed e)
           | Inr s' \<Rightarrow> (s', Done))
      | Done \<Rightarrow> (s, Done)
      | Failed e \<Rightarrow> (s, Failed e))"

fun run :: "int option \<Rightarrow> day \<Rightarrow> rat \<Rightarrow> nat list \<Rightarrow> db \<times> worker list \<Rightarrow> db \<times> worker list" where
  "run uid d a [] cfg = cfg"
| "run uid d a (i # sched) (s, ws) =
     (if i < length ws then
        (case worker_step uid d a s (ws ! i) of
           (s', w') \<Rightarrow> run uid d a sched (s', ws[i := w']))
      else run uid d a sched (s, ws))"

section \<open>Tokens, in the words of the specification\<close>

text \<open>
  The specification speaks of the number of whitespace-separated tokens of a text.
  \<open>tokenCount\<close> follows these words, to be compared with \<open>wordCount\<close>: a token is a
  maximal run of code units that are not white space, and the flag says that the code
  unit before was part of a token. \<open>starts_ws\<close> is 1 for the empty text and for a text
  that starts with white space, \<open>ends_ws\<close> is 1 for a text that ends with white space.
\<close>

fun count_tokens :: "bool \<Rightarrow> js_string \<Rightarrow> nat" where
  "count_tokens inside [] = 0"
| "count_tokens inside (c # cs) =
     (if js_space c then count_tokens False cs
      else (if inside then 0 else 1) + count_tokens True cs)"

definition tokenCount :: "js_string \<Rightarrow> nat" where
  "tokenCount t = count_tokens False t"

definition ends_ws :: "js_string \<Rightarrow> nat" where
  "ends_ws t = (if t \<noteq> [] \<and> js_space (last t) then 1 else 0)"

definition starts_ws :: "js_string \<Rightarrow> nat" where
  "starts_ws t = (case t of [] \<Rightarrow> 1 | c # _ \<Rightarrow> if js_space c then 1 else 0)"

text \<open>The answers \<^verbatim>\<open>a b\<close> and \<^verbatim>\<open>a b\<close> followed by a space.\<close>

definition text_ab :: js_string where "text_ab = [97, 32, 98]"
definition text_ab_sp :: js_string where "text_ab_sp = [97, 32, 98, 32]"

section \<open>Ledgers that satisfy the schema\<close>

text \<open>
  A value of a \<^verbatim>\<open>DECIMAL(10, 2)\<close> column is a whole number of hundredths. The usage
  table of a store satisfies its schema when the ids are distinct (the primary key),
  the pairs of user and date are distinct (\<^verbatim>\<open>unique_user_date\<close>), and every value is a
  whole number of hundredths, not negative (\<^verbatim>\<open>positive_minutes\<close>) and below \<open>10\<^sup>8\<close>.
\<close>

definition hundredths :: "rat \<Rightarrow> bool" where
  "hundredths x = (of_int \<lfloor>x * 100\<rfloor> = x * 100)"

definition wf_usage :: "db \<Rightarrow> bool" where
  "wf_usage s =
     (distinct (map row_id (usage s)) \<and>
      distinct (map (\<lambda>r. (user_id r, date r)) (usage s)) \<and>
      (\<forall>r \<in> set (usage s). hundredths (minutes_used r) \<and> 0 \<le> minutes_used r \<and> minutes_used r < 10 ^ 8))"

text \<open>What is stored for (user, day) before a recording, 0 when there is no row.\<close>

definition prev :: "db \<Rightarrow> int \<Rightarrow> day \<Rightarrow> rat" where
  "prev s u d = (case stored s u d of None \<Rightarrow> 0 | Some v \<Rightarrow> v)"

subsection \<open>Example states\<close>

text \<open>
  A store with one student (limit 120) and no usage, and the same store with 118.5
  minutes recorded on day 5.
\<close>

definition ledger0 :: db where
  "ledger0 = \<lparr>users = [\<lparr>u_id = 1, u_role = Student, minutes_limit = Some 120\<rparr>],
               usage = [], tts_usage = [], api_configs = []\<rparr>"

definition ledgerA :: db where
  "ledgerA = \<lparr>users = [\<lparr>u_id = 1, u_role = Student, minutes_limit = Some 120\<rparr>],
               usage = [\<lparr>row_id = 1, user_id = 1, date = 5, minutes_used = 237 / 2\<rparr>],
               tts_usage = [], api_configs = []\<rparr>"

text \<open>
  An environment without faults on day 5 of a month that began on day 1; the claims of
  the token that login signs for student 1; a chat request of that user; and an
  answer of three words.
\<close>

definition env0 :: env where
  "env0 = \<lparr>connect_fault = False, today = 5, firstDayOfMonth = 1, db_now = 5,
            read_fault = False, write_fault = False, apiKey = True\<rparr>"

definition decoded1 :: obj where
  "decoded1 = payload (jwt_sign 1 ''student@example.org'' Student 0)"

definition req1 :: chat_req where
  "req1 = \<lparr>chat_user = decoded1, message = Some [104, 105]\<rparr>"

definition text_abc :: js_string where
  "text_abc = [97, 32, 98, 32, 99]"


definition ledgerT :: db where
  "ledgerT = \<lparr>users = [\<lparr>u_id = 7, u_role = Student, minutes_limit = Some 120\<rparr>],
               usage = [],
               tts_usage = replicate 15 \<lparr>tts_user_id = 7, created_at = 5\<rparr>,
               api_configs = []\<rparr>"

definition with_id7 :: obj where
  "with_id7 = [(''id'', JInt 7)]"

definition tts_req_of :: "obj \<Rightarrow> tts_req" where
  "tts_req_of user = \<lparr>tts_user = user, tts_text = Some [104, 105]\<rparr>"

text \<open>
  The token that login signs for student 7; a store in which student 3 has the limit
  0 and 50 minutes on day 5, with the claims of that student's token; and a store in
  which the admin created by registration (limit 999999) has 999999 minutes on day 5,
  with the claims of the admin's token.
\<close>

definition login7 :: token where
  "login7 = jwt_sign 7 ''student7@example.org'' Student 0"

definition ledgerZ :: db where
  "ledgerZ = \<lparr>users = [\<lparr>u_id = 3, u_role = Student, minutes_limit = Some 0\<rparr>],
               usage = [\<lparr>row_id = 1, user_id = 3, date = 5, minutes_used = 50\<rparr>],
               tts_usage = [], api_configs = []\<rparr>"

definition decoded3 :: obj where
  "decoded3 = payload (jwt_sign 3 ''student3@example.org'' Student 0)"

definition ledgerAdmin :: db where
  "ledgerAdmin = \<lparr>users = [\<lparr>u_id = 2, u_role = Admin, minutes_limit = Some 999999\<rparr>],
                   usage = [\<lparr>row_id = 1, user_id = 2, date = 5, minutes_used = 999999\<rparr>],
                   tts_usage = [], api_configs = []\<rparr>"

definition decoded2 :: obj where
  "decoded2 = payload (jwt_sign 2 ''admin@voiceagent.com'' Admin 0)"

text \<open>One synthesis call of student 7 with the login token, answered by the provider.\<close>

definition tts_call :: "db \<Rightarrow> outcome option" where
  "tts_call s =
     tts s env0 (Tts_Reply 200 (Json_Object (Some text_abc))) (tts_req_of (payload login7))"

text \<open>
  A store in which the daily limit is configured as the text \<^verbatim>\<open>0\<close>, with the admin
  created by registration and student 7, and no usage.
\<close>

definition ledgerL0 :: db where
  "ledgerL0 = \<lparr>users = [\<lparr>u_id = 2, u_role = Admin, minutes_limit = Some 999999\<rparr>,
                          \<lparr>u_id = 7, u_role = Student, minutes_limit = Some 120\<rparr>],
                usage = [], tts_usage = [],
                api_configs = [(''tts_daily_limit'', Some [48])]\<rparr>"

section \<open>Properties\<close>

subsection \<open>The cast and the record step\<close>

lemma hundredthsE:
  assumes "hundredths x"
  obtains k :: int where "x * 100 = of_int k"
  using assms by (auto simp: hundredths_def)

lemma hundredthsI: "x * 100 = of_int k \<Longrightarrow> hundredths x"
  by (auto simp: hundredths_def)

lemma round2_hundredths: "hundredths x \<Longrightarrow> round2 x = x"
proof -
  assume h: "hundredths x"
  then obtain k :: int where xk: "x * 100 = of_int k" by (rule hundredthsE)
  have ak: "\<bar>x\<bar> * 100 = of_int \<bar>k\<bar>"
    using xk by (metis abs_mult abs_numeral of_int_abs)
  have "\<lfloor>\<bar>x\<bar> * 100 + 1 / 2\<rfloor> = \<bar>k\<bar>"
    unfolding ak by linarith
  then have "round2 x = sgn x * of_int \<bar>k\<bar> / 100" by (simp add: round2_def)
  also have "\<dots> = sgn x * \<bar>x\<bar>" using ak by simp
  also have "\<dots> = x" by (simp add: sgn_mult_abs)
  finally show ?thesis .
qed

lemma hundredths_add: "hundredths x \<Longrightarrow> hundredths y \<Longrightarrow> hundredths (x + y)"
proof -
  assume hx: "hundredths x" and hy: "hundredths y"
  from hx obtain k :: int where k: "x * 100 = of_int k" by (rule hundredthsE)
  from hy obtain l :: int where l: "y * 100 = of_int l" by (rule hundredthsE)
  have "(x + y) * 100 = of_int (k + l)" using k l by (simp add: algebra_simps)
  then show ?thesis by (rule hundredthsI)
qed

lemma numeric_exact:
  "hundredths x \<Longrightarrow> \<bar>x\<bar> < 10 ^ 8 \<Longrightarrow> numeric_10_2 x = Some x"
  by (simp add: numeric_10_2_def round2_hundredths)

lemma update_rows_map:
  assumes "\<forall>r \<in> set rs. row_id r = i \<longrightarrow>
             hundredths (minutes_used r + a) \<and> 0 \<le> minutes_used r + a \<and> minutes_used r + a < 10 ^ 8"
  shows "update_rows a i rs =
           Inr (map (\<lambda>r. if row_id r = i then r\<lparr>minutes_used := minutes_used r + a\<rparr> else r) rs)"
  using assms
proof (induction rs)
  case Nil
  then show ?case by simp
next
  case (Cons r rs)
  then show ?case by (auto simp: numeric_exact abs_if)
qed


lemma next_id_fresh: "next_id rs \<notin> set (map row_id rs)"
proof -
  have "i \<in> set ids \<Longrightarrow> i \<le> foldr max ids 0" for i :: nat and ids
    by (induction ids) auto
  then show ?thesis unfolding next_id_def by fastforce
qed

lemma select_usage_map:
  assumes "\<And>r. user_id (f r) = user_id r \<and> date (f r) = date r"
  shows "select_usage (s\<lparr>usage := map f (usage s)\<rparr>) uid d = map f (select_usage s uid d)"
  by (simp add: select_usage_def filter_map o_def assms)

lemma record_insert:
  assumes wf: "wf_usage s" and u: "u \<in> set (map u_id (users s))"
    and none: "select_usage s (Some u) d = []"
    and a: "hundredths a" "0 \<le> a" "a < 10 ^ 8"
  shows "\<exists>s'. recordMinutes False s (Some u) d a = Inr s' \<and> wf_usage s' \<and>
              users s' = users s \<and> stored s' u d = Some a"
proof -
  let ?row = "\<lparr>row_id = next_id (usage s), user_id = u, date = d, minutes_used = a\<rparr>"
  let ?s' = "s\<lparr>usage := usage s @ [?row]\<rparr>"
  have num: "numeric_10_2 a = Some a" using a by (simp add: numeric_exact abs_if)
  have rec: "recordMinutes False s (Some u) d a = Inr ?s'"
    using none num a(2) u by (simp add: recordMinutes_def insert_usage_def)
  have key: "(u, d) \<notin> set (map (\<lambda>r. (user_id r, date r)) (usage s))"
  proof
    assume "(u, d) \<in> set (map (\<lambda>r. (user_id r, date r)) (usage s))"
    then obtain r where "r \<in> set (usage s)" "user_id r = u" "date r = d" by auto
    then have "r \<in> set (select_usage s (Some u) d)" by (simp add: select_usage_def)
    with none show False by simp
  qed
  have wf': "wf_usage ?s'"
    using wf a key next_id_fresh [of "usage s"] by (auto simp: wf_usage_def)
  have "select_usage ?s' (Some u) d = [?row]"
    using none by (simp add: select_usage_def)
  then have "stored ?s' u d = Some a" by (simp add: stored_def)
  with rec wf' show ?thesis by simp
qed

lemma record_update:
  assumes wf: "wf_usage s"
    and some: "select_usage s (Some u) d = r # rest"
    and a: "hundredths a" "0 \<le> a" "minutes_used r + a < 10 ^ 8"
  shows "\<exists>s'. recordMinutes False s (Some u) d a = Inr s' \<and> wf_usage s' \<and>
              users s' = users s \<and> stored s' u d = Some (minutes_used r + a)"
proof -
  let ?f = "\<lambda>x. if row_id x = row_id r then x\<lparr>minutes_used := minutes_used x + a\<rparr> else x"
  let ?s' = "s\<lparr>usage := map ?f (usage s)\<rparr>"
  have "r \<in> set (select_usage s (Some u) d)" using some by simp
  then have rin: "r \<in> set (usage s)" by (simp add: select_usage_def)
  have uniq: "x = r" if "x \<in> set (usage s)" "row_id x = row_id r" for x
    using wf rin that by (auto simp: wf_usage_def distinct_map dest: inj_onD)
  have rok: "hundredths (minutes_used r) \<and> 0 \<le> minutes_used r"
    using wf rin by (auto simp: wf_usage_def)
  have pre: "\<forall>x \<in> set (usage s). row_id x = row_id r \<longrightarrow>
               hundredths (minutes_used x + a) \<and> 0 \<le> minutes_used x + a \<and> minutes_used x + a < 10 ^ 8"
  proof (intro ballI impI)
    fix x assume "x \<in> set (usage s)" "row_id x = row_id r"
    then have "x = r" by (rule uniq)
    then show "hundredths (minutes_used x + a) \<and> 0 \<le> minutes_used x + a \<and> minutes_used x + a < 10 ^ 8"
      using rok a by (simp add: hundredths_add)
  qed
  have rec: "recordMinutes False s (Some u) d a = Inr ?s'"
    using some update_rows_map [OF pre] by (simp add: recordMinutes_def update_usage_def)
  have ids: "map row_id (map ?f (usage s)) = map row_id (usage s)" by (simp add: o_def)
  have keys: "map (\<lambda>r. (user_id r, date r)) (map ?f (usage s)) = map (\<lambda>r. (user_id r, date r)) (usage s)"
    by (simp add: o_def)
  have vals: "\<forall>x \<in> set (map ?f (usage s)). hundredths (minutes_used x) \<and> 0 \<le> minutes_used x \<and> minutes_used x < 10 ^ 8"
    using wf pre by (auto simp: wf_usage_def)
  have us: "usage ?s' = map ?f (usage s)" by simp
  have wf': "wf_usage ?s'"
    unfolding wf_usage_def us ids keys using wf vals unfolding wf_usage_def by blast
  have "select_usage ?s' (Some u) d = map ?f (select_usage s (Some u) d)"
    by (rule select_usage_map) simp
  then have "stored ?s' u d = Some (minutes_used r + a)"
    using some by (simp add: stored_def)
  with rec wf' show ?thesis by simp
qed

lemma record_step:
  assumes wf: "wf_usage s" and u: "u \<in> set (map u_id (users s))"
    and a: "hundredths a" "0 \<le> a" "prev s u d + a < 10 ^ 8"
  shows "\<exists>s'. recordMinutes False s (Some u) d a = Inr s' \<and> wf_usage s' \<and>
              users s' = users s \<and> stored s' u d = Some (prev s u d + a)"
proof (cases "select_usage s (Some u) d")
  case Nil
  then have "prev s u d = 0" by (simp add: prev_def stored_def)
  with record_insert [OF wf u Nil a(1,2)] a(3) show ?thesis by simp
next
  case (Cons r rest)
  then have "prev s u d = minutes_used r" by (simp add: prev_def stored_def)
  with record_update [OF wf Cons a(1,2)] a(3) show ?thesis by simp
qed


lemma record_seq_stored:
  assumes "wf_usage s" and "u \<in> set (map u_id (users s))"
    and "\<forall>x \<in> set (a # as). hundredths x \<and> 0 < x"
    and "prev s u d + sum_list (a # as) < 10 ^ 8"
  shows "stored (record_seq s u d (a # as)) u d = Some (prev s u d + sum_list (a # as))"
  using assms
proof (induction as arbitrary: s a)
  case Nil
  from record_step [OF Nil(1,2), of a d] Nil(3,4)
  obtain s' where "recordMinutes False s (Some u) d a = Inr s'"
    and "stored s' u d = Some (prev s u d + a)" by auto
  then show ?case by simp
next
  case (Cons b bs)
  have nonneg: "0 \<le> sum_list (b # bs)"
    using Cons.prems(3) by (intro sum_list_nonneg) auto
  then have "prev s u d + a < 10 ^ 8" using Cons.prems(4) by simp
  with record_step [OF Cons.prems(1,2), of a d] Cons.prems(3)
  obtain s' where s': "recordMinutes False s (Some u) d a = Inr s'" "wf_usage s'"
    "users s' = users s" "stored s' u d = Some (prev s u d + a)" by auto
  have p: "prev s' u d = prev s u d + a" using s'(4) by (simp add: prev_def)
  have "stored (record_seq s' u d (b # bs)) u d = Some (prev s' u d + sum_list (b # bs))"
    using Cons.prems s' p by (intro Cons.IH) (auto simp: algebra_simps)
  then show ?case using s'(1) p by (simp add: algebra_simps)
qed

subsection \<open>Sequential recordings\<close>

text \<open>
  A request to the usage endpoint with an amount above 0 is one step of \<open>record_seq\<close>.
\<close>

lemma post_usage_store:
  assumes "0 < m" and "\<not> connect_fault e" and "\<not> write_fault e"
    and "get_prop user ''userId'' = Some (JInt u)"
  shows "store_after s (post_usage s e user (Some m)) = record_seq s u (today e) [m]"
  using assms by (simp add: post_usage_def store_after_def split: sum.splits)

text \<open>
  C4, as amended. For a fixed (user, day), an existing user and a usage table that
  satisfies its schema, every finite non-empty sequence of recordings whose amounts are
  positive whole hundredths of a minute, executed one after the other, with the total
  staying below \<open>10\<^sup>8\<close>, leaves as stored value what was stored before (0 when there was
  no row) plus the sum of the amounts. With one amount and no row, the recording creates
  a row holding exactly the amount; with a row, it increments the row.
\<close>

theorem recordMinutes_accumulates:
  assumes "wf_usage s" and "u \<in> set (map u_id (users s))"
    and "\<forall>a \<in> set amounts. hundredths a \<and> 0 < a"
    and "prev s u d + sum_list amounts < 10 ^ 8"
    and "amounts \<noteq> []"
  shows "stored (record_seq s u d amounts) u d = Some (prev s u d + sum_list amounts)"
proof -
  from assms(5) obtain a as where "amounts = a # as" by (cases amounts) auto
  with assms(1-4) show ?thesis by (simp only: record_seq_stored)
qed

text \<open>
  C4, witness: on the store with 118.5 minutes on day 5, recording 2 and then 0.25
  minutes leaves 120.75.
\<close>

theorem recordMinutes_accumulates_witness:
  "wf_usage ledgerA \<and> (1::int) \<in> set (map u_id (users ledgerA)) \<and>
   hundredths 2 \<and> (0::rat) < 2 \<and> hundredths (1 / 4) \<and> (0::rat) < 1 / 4 \<and>
   prev ledgerA 1 5 + sum_list [2, 1 / 4] < 10 ^ 8 \<and> [2, 1 / 4 :: rat] \<noteq> [] \<and>
   stored (record_seq ledgerA 1 5 [2, 1 / 4]) 1 5 = Some (483 / 4)"
proof -
  have 1: "wf_usage ledgerA" by code_simp
  have 2: "(1::int) \<in> set (map u_id (users ledgerA))" by (simp add: ledgerA_def)
  have 3: "\<forall>a \<in> set [2, 1 / 4 :: rat]. hundredths a \<and> 0 < a" by code_simp
  have p: "prev ledgerA 1 5 = 237 / 2"
    by (simp add: prev_def stored_def select_usage_def ledgerA_def)
  have 4: "prev ledgerA 1 5 + sum_list [2, 1 / 4] < 10 ^ 8" by (simp add: p)
  have 5: "[2, 1 / 4 :: rat] \<noteq> []" by simp
  from recordMinutes_accumulates [OF 1 2 3 4 5] have
    "stored (record_seq ledgerA 1 5 [2, 1 / 4]) 1 5 = Some (483 / 4)" by (simp add: p)
  moreover have "hundredths 2 \<and> (0::rat) < 2 \<and> hundredths (1 / 4) \<and> (0::rat) < 1 / 4"
    using 3 by simp
  ultimately show ?thesis using 1 2 4 5 by blast
qed

text \<open>
  C4, counterexample to the claim as stated: three recordings of 0.004 minutes, each
  accepted by \<^verbatim>\<open>POST /api/user/usage\<close> (a number above 0, answered 200), on a store
  without a row. The insert stores 0.00, each update stores the rounding of 0.004, and
  the stored value is 0, not the sum 0.012.
\<close>

theorem recordMinutes_sum_counterexample:
  "post_usage ledger0 env0 decoded1 (Some (1 / 250)) =
     Some \<lparr>resp = \<lparr>status = 200,
                    json = [(''message'', JStr ''Utilizzo registrato''),
                            (''minutes_added'', JDec (1 / 250))]\<rparr>,
           store = ledger0\<lparr>usage := [\<lparr>row_id = 1, user_id = 1, date = 5, minutes_used = 0\<rparr>]\<rparr>,
           logged = [], called = False\<rparr> \<and>
   stored (record_seq ledger0 1 5 [1 / 250, 1 / 250, 1 / 250]) 1 5 = Some 0 \<and>
   stored (record_seq ledger0 1 5 [1 / 250, 1 / 250, 1 / 250]) 1 5
     \<noteq> Some (sum_list [1 / 250, 1 / 250, 1 / 250])"
  by code_simp

subsection \<open>The cost of a conversation\<close>

lemma update_rows_Inr:
  "update_rows a i rs = Inr rs' \<Longrightarrow>
   rs' = map (\<lambda>x. if row_id x = i then x\<lparr>minutes_used := round2 (minutes_used x + a)\<rparr> else x) rs"
proof (induction rs arbitrary: rs')
  case Nil
  then show ?case by simp
next
  case (Cons r rs)
  then show ?case
    by (auto simp: numeric_10_2_def Let_def split: if_splits sum.splits option.splits)
qed

lemma record_success:
  assumes wf: "wf_usage s" and a: "hundredths a"
    and rec: "recordMinutes w s uid d a = Inr s'"
  shows "\<exists>u. uid = Some u \<and> stored s' u d = Some (prev s u d + a)"
proof (cases "select_usage s uid d")
  case Nil
  with rec have ins: "insert_usage s uid d a = Inr s'"
    by (simp add: recordMinutes_def split: if_splits)
  then obtain u where u: "uid = Some u"
    by (cases uid) (auto simp: insert_usage_def)
  have r2: "round2 a = a" using a by (rule round2_hundredths)
  from ins u Nil have s': "s' = s\<lparr>usage := usage s @
      [\<lparr>row_id = next_id (usage s), user_id = u, date = d, minutes_used = a\<rparr>]\<rparr>"
    by (auto simp: insert_usage_def numeric_10_2_def Let_def r2 split: option.splits if_splits)
  have "select_usage s' (Some u) d =
      [\<lparr>row_id = next_id (usage s), user_id = u, date = d, minutes_used = a\<rparr>]"
    using Nil u unfolding s' by (simp add: select_usage_def)
  moreover have "prev s u d = 0" using Nil u by (simp add: prev_def stored_def)
  ultimately show ?thesis using u by (simp add: stored_def)
next
  case (Cons r rest)
  then have "r \<in> set (select_usage s uid d)" by simp
  then have rin: "r \<in> set (usage s)" and u: "uid = Some (user_id r)"
    by (auto simp: select_usage_def)
  let ?g = "\<lambda>x. if row_id x = row_id r
                 then x\<lparr>minutes_used := round2 (minutes_used x + a)\<rparr> else x"
  from rec Cons have "update_usage s a (row_id r) = Inr s'"
    by (simp add: recordMinutes_def split: if_splits)
  then obtain rs' where up: "update_rows a (row_id r) (usage s) = Inr rs'"
    and s': "s' = s\<lparr>usage := rs'\<rparr>"
    by (auto simp: update_usage_def split: sum.splits)
  have "rs' = map ?g (usage s)" using up by (rule update_rows_Inr)
  then have "select_usage s' uid d = map ?g (select_usage s uid d)"
    unfolding s' by (simp add: select_usage_map)
  then have st: "stored s' (user_id r) d = Some (round2 (minutes_used r + a))"
    using Cons u by (simp add: stored_def)
  have "hundredths (minutes_used r)" using wf rin by (auto simp: wf_usage_def)
  then have "round2 (minutes_used r + a) = minutes_used r + a"
    using a by (simp add: round2_hundredths hundredths_add)
  moreover have "prev s (user_id r) d = minutes_used r"
    using Cons u by (simp add: prev_def stored_def)
  ultimately show ?thesis using st u by simp
qed

lemma estimatedMinutes_hundredths: "hundredths (estimatedMinutes t)"
  by (rule hundredthsI [of _ "Math_round ((of_nat (wordCount t) / 150) * 100)"])
     (simp add: estimatedMinutes_def)

lemma estimatedMinutes_near:
  "\<bar>estimatedMinutes t - of_nat (wordCount t) / 150\<bar> < 1 / 200"
proof -
  define n where "n = wordCount t"
  define y :: rat where "y = of_nat n * 2 / 3"
  define m where "m = \<lfloor>y + 1 / 2\<rfloor>"
  have "(of_nat n / 150) * 100 = y" by (simp add: y_def)
  then have e: "estimatedMinutes t = of_int m / 100"
    by (simp only: estimatedMinutes_def Math_round_def m_def n_def)
  have le: "of_int m \<le> y + 1 / 2" unfolding m_def by (rule of_int_floor_le)
  have gt: "y + 1 / 2 < of_int m + 1" unfolding m_def by linarith
  have ne: "of_int m \<noteq> y + 1 / 2"
  proof
    assume "of_int m = y + 1 / 2"
    then have "(of_int (6 * m) :: rat) = of_int (4 * int n + 3)"
      by (simp add: y_def)
    then have "6 * m = 4 * int n + 3" by (simp only: of_int_eq_iff)
    then show False by presburger
  qed
  from le ne have lt: "of_int m < y + 1 / 2" by simp
  have "\<bar>of_int m - y\<bar> < 1 / 2" using lt gt by (simp add: abs_if)
  moreover have "estimatedMinutes t - of_nat (wordCount t) / 150 = (of_int m - y) / 100"
    by (simp add: e y_def n_def field_simps)
  ultimately show ?thesis by (simp add: abs_if split: if_splits)
qed


lemma chat_answer:
  assumes "chat s e r req = Some out"
  shows "out = chat_try s e r req \<or>
         out = \<lparr>resp = \<lparr>status = 400, json = [(''error'', JStr ''Messaggio richiesto'')]\<rparr>,
                store = s, logged = [], called = False\<rparr>"
  using assms by (auto simp: chat_def split: if_splits)

lemma chat_success:
  assumes "status (resp (chat_try s e r req)) = 200"
  shows "\<exists>st raw t s'. r = Reply st raw (Some t) \<and> ok st \<and>
           recordMinutes (write_fault e) s (param_int (get_prop (chat_user req) ''userId''))
             (today e) (estimatedMinutes t) = Inr s' \<and>
           chat_try s e r req =
             \<lparr>resp = \<lparr>status = 200,
                       json = [(''response'', JText t), (''minutes_used'', JDec (estimatedMinutes t))]\<rparr>,
              store = s', logged = [], called = True\<rparr>"
  using assms
  by (auto simp: chat_try_def chat_catch_def Let_def ok_def
           split: if_splits http_reply.splits option.splits sum.splits)

lemma split_from_length:
  "length (split_from False t) = count_tokens True t + 1 + ends_ws t \<and>
   length (split_from True t) = count_tokens False t + (if t = [] then 1 else ends_ws t)"
proof (induction t)
  case Nil
  then show ?case by (simp add: ends_ws_def)
next
  case (Cons c cs)
  then show ?case by (auto simp: ends_ws_def split: list.splits)
qed

lemma wordCount_tokens: "wordCount t = tokenCount t + starts_ws t + ends_ws t"
proof (cases t)
  case Nil
  then show ?thesis
    by (simp add: wordCount_def split_ws_def tokenCount_def starts_ws_def ends_ws_def)
next
  case (Cons c cs)
  show ?thesis
    using split_from_length [of cs] unfolding Cons
    by (auto simp: wordCount_def split_ws_def tokenCount_def starts_ws_def ends_ws_def
             split: list.splits)
qed

text \<open>
  C5, as amended. A conversation call that succeeds (status 200) had a downstream
  answer \<open>t\<close>; the cost returned in \<^verbatim>\<open>minutes_used\<close> and the cost added to the ledger
  row of the user and day are both \<open>estimatedMinutes t\<close>, which is \<^verbatim>\<open>wordCount / 150\<close>
  rounded to two decimals: a whole number of hundredths less than half a hundredth
  away from \<^verbatim>\<open>wordCount / 150\<close>. Here \<open>wordCount\<close> is the number of pieces into which the
  runs of white space split the answer: the number of whitespace-separated tokens,
  plus one when the answer is empty or starts with white space, plus one when it ends
  with white space. Answers with equal \<open>wordCount\<close> have equal cost. The usage table is
  taken to satisfy its schema.
\<close>

theorem chat_cost:
  assumes "wf_usage s" and "chat s e r req = Some out" and "status (resp out) = 200"
  shows "\<exists>st raw t u.
           r = Reply st raw (Some t) \<and>
           param_int (get_prop (chat_user req) ''userId'') = Some u \<and>
           get_prop (json (resp out)) ''minutes_used'' = Some (JDec (estimatedMinutes t)) \<and>
           stored (store out) u (today e) = Some (prev s u (today e) + estimatedMinutes t) \<and>
           estimatedMinutes t = of_int \<lfloor>(of_nat (wordCount t) :: rat) / 150 * 100 + 1 / 2\<rfloor> / 100 \<and>
           wordCount t = tokenCount t + starts_ws t + ends_ws t \<and>
           hundredths (estimatedMinutes t) \<and>
           \<bar>estimatedMinutes t - of_nat (wordCount t) / 150\<bar> < 1 / 200 \<and>
           (\<forall>t'. wordCount t' = wordCount t \<longrightarrow> estimatedMinutes t' = estimatedMinutes t)"
proof -
  from chat_answer [OF assms(2)] assms(3) have o: "out = chat_try s e r req" by auto
  with assms(3) have "status (resp (chat_try s e r req)) = 200" by simp
  from chat_success [OF this] obtain st raw t s' where
    r: "r = Reply st raw (Some t)" and
    rec: "recordMinutes (write_fault e) s (param_int (get_prop (chat_user req) ''userId''))
             (today e) (estimatedMinutes t) = Inr s'" and
    out: "chat_try s e r req =
             \<lparr>resp = \<lparr>status = 200,
                       json = [(''response'', JText t), (''minutes_used'', JDec (estimatedMinutes t))]\<rparr>,
              store = s', logged = [], called = True\<rparr>"
    by blast
  from record_success [OF assms(1) estimatedMinutes_hundredths rec] obtain u where
    u: "param_int (get_prop (chat_user req) ''userId'') = Some u" and
    st: "stored s' u (today e) = Some (prev s u (today e) + estimatedMinutes t)"
    by blast
  have same: "\<forall>t'. wordCount t' = wordCount t \<longrightarrow> estimatedMinutes t' = estimatedMinutes t"
    by (simp add: estimatedMinutes_def)
  have field: "get_prop (json (resp out)) ''minutes_used'' = Some (JDec (estimatedMinutes t))"
    unfolding o out by (simp add: get_prop_def)
  have stored': "stored (store out) u (today e) = Some (prev s u (today e) + estimatedMinutes t)"
    unfolding o out using st by simp
  have form: "estimatedMinutes t = of_int \<lfloor>(of_nat (wordCount t) :: rat) / 150 * 100 + 1 / 2\<rfloor> / 100"
    by (simp only: estimatedMinutes_def Math_round_def)
  show ?thesis
    using r u field stored' form wordCount_tokens [of t]
      estimatedMinutes_hundredths [of t] estimatedMinutes_near [of t] same
    by blast
qed

text \<open>
  The successful call used in the examples: student 1 with 118.5 minutes on day 5
  receives the answer \<^verbatim>\<open>a b c\<close>; three words cost 0.02 minutes.
\<close>

lemma estimatedMinutes_abc: "estimatedMinutes text_abc = 1 / 50"
proof -
  have wc: "wordCount text_abc = 3"
    by (simp add: wordCount_def split_ws_def js_space_def text_abc_def)
  have "of_int (Math_round ((of_nat 3 / 150) * 100)) / 100 = (1 / 50 :: rat)" by code_simp
  then show ?thesis by (simp only: estimatedMinutes_def wc)
qed

lemma chat_example:
  "chat ledgerA env0 (Reply 200 [] (Some text_abc)) req1 =
     Some \<lparr>resp = \<lparr>status = 200,
                    json = [(''response'', JText text_abc), (''minutes_used'', JDec (1 / 50))]\<rparr>,
           store = ledgerA\<lparr>usage := [\<lparr>row_id = 1, user_id = 1, date = 5,
                                       minutes_used = 237 / 2 + 1 / 50\<rparr>]\<rparr>,
           logged = [], called = True\<rparr>"
proof -
  have u: "param_int (get_prop decoded1 ''userId'') = Some 1" by code_simp
  have a: "admitted (admitConversation ledgerA env0 decoded1)" by code_simp
  have rec: "recordMinutes False ledgerA (Some 1) 5 (1 / 50) =
      Inr (ledgerA\<lparr>usage := [\<lparr>row_id = 1, user_id = 1, date = 5, minutes_used = 237 / 2 + 1 / 50\<rparr>]\<rparr>)"
    by code_simp
  show ?thesis
    using a by (simp add: chat_def chat_try_def Let_def req1_def missing_def env0_def ok_def
                  estimatedMinutes_abc u rec)
qed

text \<open>
  C5, witness: student 1 with 118.5 minutes on day 5 receives the answer
  \<^verbatim>\<open>a b c\<close>; three words cost 0.02 minutes, returned and added to the row.
\<close>

theorem chat_cost_witness:
  "wf_usage ledgerA \<and>
   chat ledgerA env0 (Reply 200 [] (Some text_abc)) req1 =
     Some \<lparr>resp = \<lparr>status = 200,
                    json = [(''response'', JText text_abc), (''minutes_used'', JDec (1 / 50))]\<rparr>,
           store = ledgerA\<lparr>usage := [\<lparr>row_id = 1, user_id = 1, date = 5,
                                       minutes_used = 237 / 2 + 1 / 50\<rparr>]\<rparr>,
           logged = [], called = True\<rparr> \<and>
   stored (ledgerA\<lparr>usage := [\<lparr>row_id = 1, user_id = 1, date = 5,
                                minutes_used = 237 / 2 + 1 / 50\<rparr>]\<rparr>) 1 5
     = Some (prev ledgerA 1 5 + estimatedMinutes text_abc) \<and>
   prev ledgerA 1 5 + estimatedMinutes text_abc = 237 / 2 + 1 / 50"
proof -
  let ?out = "\<lparr>resp = \<lparr>status = 200,
                    json = [(''response'', JText text_abc), (''minutes_used'', JDec (1 / 50))]\<rparr>,
           store = ledgerA\<lparr>usage := [\<lparr>row_id = 1, user_id = 1, date = 5,
                                       minutes_used = 237 / 2 + 1 / 50\<rparr>]\<rparr>,
           logged = [], called = True\<rparr>"
  have 1: "wf_usage ledgerA" by code_simp
  have 2: "chat ledgerA env0 (Reply 200 [] (Some text_abc)) req1 = Some ?out" by (rule chat_example)
  have 3: "status (resp ?out) = 200" by simp
  have u: "param_int (get_prop (chat_user req1) ''userId'') = Some 1" by code_simp
  have p: "prev ledgerA 1 5 = 237 / 2" by code_simp
  have d: "today env0 = 5" by (simp add: env0_def)
  from chat_cost [OF 1 2 3] obtain st raw t u' where
    a: "Reply 200 [] (Some text_abc) = Reply st raw (Some t)" and
    b: "param_int (get_prop (chat_user req1) ''userId'') = Some u'" and
    c: "stored (store ?out) u' (today env0) = Some (prev ledgerA u' (today env0) + estimatedMinutes t)"
    by blast
  from a have t: "t = text_abc" by simp
  from b u have u': "u' = 1" by simp
  from c have "stored (store ?out) 1 5 = Some (prev ledgerA 1 5 + estimatedMinutes text_abc)"
    unfolding t u' d .
  then have s: "stored (ledgerA\<lparr>usage := [\<lparr>row_id = 1, user_id = 1, date = 5,
                                minutes_used = 237 / 2 + 1 / 50\<rparr>]\<rparr>) 1 5
     = Some (prev ledgerA 1 5 + estimatedMinutes text_abc)" by simp
  have "prev ledgerA 1 5 + estimatedMinutes text_abc = 237 / 2 + 1 / 50"
    by (simp only: p estimatedMinutes_abc)
  with 1 2 s show ?thesis by blast
qed

text \<open>
  C5, counterexample to the claim as stated: the answers \<^verbatim>\<open>a b\<close> and \<^verbatim>\<open>a b\<close> followed
  by a space have two whitespace-separated tokens each. The first costs 0.01 minutes,
  which is 2 / 150 rounded; the second splits into three pieces and costs 0.02.
\<close>

theorem chat_cost_counterexample:
  "tokenCount text_ab_sp = 2 \<and> tokenCount text_ab = 2 \<and>
   estimatedMinutes text_ab = 1 / 100 \<and> estimatedMinutes text_ab_sp = 1 / 50 \<and>
   estimatedMinutes text_ab_sp \<noteq> estimatedMinutes text_ab"
proof -
  have t: "tokenCount text_ab_sp = 2" "tokenCount text_ab = 2"
    by (simp_all add: tokenCount_def text_ab_sp_def text_ab_def js_space_def)
  have w: "wordCount text_ab_sp = 3" "wordCount text_ab = 2"
    by (simp_all add: wordCount_def split_ws_def text_ab_sp_def text_ab_def js_space_def)
  have "of_int (Math_round ((of_nat 3 / 150) * 100)) / 100 = (1 / 50 :: rat)"
       "of_int (Math_round ((of_nat 2 / 150) * 100)) / 100 = (1 / 100 :: rat)" by code_simp+
  then have e: "estimatedMinutes text_ab_sp = 1 / 50" "estimatedMinutes text_ab = 1 / 100"
    by (simp_all only: estimatedMinutes_def w)
  from t e show ?thesis by simp
qed

subsection \<open>No cost without a downstream success\<close>

lemma jwt_sign_ids:
  "param_int (get_prop (payload (jwt_sign uid email r now)) ''userId'') = Some uid \<and>
   get_prop (payload (jwt_sign uid email r now)) ''id'' = None"
  by (simp add: jwt_sign_def get_prop_def)

lemma parseInt_0: "parseInt (Some [48]) = Some 0"
  by (simp add: parseInt_def js_space_def parse_digits_def digit_of_def Let_def)







lemma admitTTS_limit0:
  "admitTTS ledgerL0 env0 (payload (jwt_sign uid email rl now)) =
     \<lparr>tts_admitted = False, usedToday = 0, dailyLimit = Some 0\<rparr>"
  by (simp add: admitTTS_def ledgerL0_def parseInt_0 count_tts_def reached_def Let_def
        jwt_sign_ids)



subsection \<open>The answers of the text-to-speech endpoint\<close>

lemma tts_denied_response:
  assumes "\<not> missing (tts_text q)" and "\<not> read_fault e"
    and "\<not> tts_admitted (admitTTS s e (tts_user q))"
  shows "resp (tts_try s e r q) =
           \<lparr>status = 429,
            json = [(''error'', JStr ''Daily premium TTS limit reached''),
                    (''usedToday'', JInt (int (usedToday (admitTTS s e (tts_user q))))),
                    (''dailyLimit'', (case dailyLimit (admitTTS s e (tts_user q)) of
                                        None \<Rightarrow> JNull | Some l \<Rightarrow> JInt l)),
                    (''fallbackToLocal'', JBool True)]\<rparr>"
  using assms by (simp add: tts_try_def Let_def)

lemma tts_denied_limit:
  assumes "\<not> tts_admitted (admitTTS s e user)"
  shows "\<exists>l. dailyLimit (admitTTS s e user) = Some l \<and> l \<le> int (usedToday (admitTTS s e user))"
  using assms by (auto simp: admitTTS_def Let_def reached_def split: option.splits)

lemma tts_failed_response:
  assumes "\<not> missing (tts_text q)" and "tts_admitted (admitTTS s e (tts_user q))"
    and "r = Tts_Unreachable \<or> (\<exists>st body. r = Tts_Reply st body \<and> \<not> ok st)"
  shows "resp (tts_try s e r q) =
           \<lparr>status = 500,
            json = [(''error'', JStr ''Text-to-speech failed''), (''fallbackToLocal'', JBool True)]\<rparr>"
  using assms by (auto simp: tts_try_def tts_catch_def Let_def split: json_body.splits)

text \<open>
  C7. The text-to-speech endpoint answers with \<^verbatim>\<open>fallbackToLocal: true\<close> in both
  failure cases. On a quota denial the status is 429, not the 500 of a server error,
  and the answer carries \<^verbatim>\<open>usedToday\<close> and \<^verbatim>\<open>dailyLimit\<close>. On a downstream failure
  (the fetch throws, or the reply is not ok) the status is 500.
\<close>

theorem tts_fallback:
  "(\<not> connect_fault e \<and> \<not> missing (tts_text q) \<and> \<not> read_fault e \<and>
    \<not> tts_admitted (admitTTS s e (tts_user q)) \<longrightarrow>
      (\<exists>out. tts s e r q = Some out \<and>
         status (resp out) = 429 \<and>
         get_prop (json (resp out)) ''fallbackToLocal'' = Some (JBool True) \<and>
         get_prop (json (resp out)) ''usedToday''
           = Some (JInt (int (usedToday (admitTTS s e (tts_user q))))) \<and>
         (\<exists>l. dailyLimit (admitTTS s e (tts_user q)) = Some l \<and>
              get_prop (json (resp out)) ''dailyLimit'' = Some (JInt l)))) \<and>
   (\<not> connect_fault e \<and> \<not> missing (tts_text q) \<and> tts_admitted (admitTTS s e (tts_user q)) \<and>
    (r = Tts_Unreachable \<or> (\<exists>st body. r = Tts_Reply st body \<and> \<not> ok st)) \<longrightarrow>
      (\<exists>out. tts s e r q = Some out \<and>
         status (resp out) = 500 \<and>
         get_prop (json (resp out)) ''fallbackToLocal'' = Some (JBool True)))"
proof (intro conjI impI)
  assume h: "\<not> connect_fault e \<and> \<not> missing (tts_text q) \<and> \<not> read_fault e \<and>
    \<not> tts_admitted (admitTTS s e (tts_user q))"
  then have o: "tts s e r q = Some (tts_try s e r q)" by (simp add: tts_def)
  from h have rq: "resp (tts_try s e r q) =
           \<lparr>status = 429,
            json = [(''error'', JStr ''Daily premium TTS limit reached''),
                    (''usedToday'', JInt (int (usedToday (admitTTS s e (tts_user q))))),
                    (''dailyLimit'', (case dailyLimit (admitTTS s e (tts_user q)) of
                                        None \<Rightarrow> JNull | Some l \<Rightarrow> JInt l)),
                    (''fallbackToLocal'', JBool True)]\<rparr>"
    by (simp add: tts_denied_response)
  from h tts_denied_limit obtain l where l: "dailyLimit (admitTTS s e (tts_user q)) = Some l"
    by blast
  have "status (resp (tts_try s e r q)) = 429 \<and>
         get_prop (json (resp (tts_try s e r q))) ''fallbackToLocal'' = Some (JBool True) \<and>
         get_prop (json (resp (tts_try s e r q))) ''usedToday''
           = Some (JInt (int (usedToday (admitTTS s e (tts_user q))))) \<and>
         (\<exists>l. dailyLimit (admitTTS s e (tts_user q)) = Some l \<and>
              get_prop (json (resp (tts_try s e r q))) ''dailyLimit'' = Some (JInt l))"
    unfolding rq using l by (simp add: get_prop_def)
  with o show "\<exists>out. tts s e r q = Some out \<and>
         status (resp out) = 429 \<and>
         get_prop (json (resp out)) ''fallbackToLocal'' = Some (JBool True) \<and>
         get_prop (json (resp out)) ''usedToday''
           = Some (JInt (int (usedToday (admitTTS s e (tts_user q))))) \<and>
         (\<exists>l. dailyLimit (admitTTS s e (tts_user q)) = Some l \<and>
              get_prop (json (resp out)) ''dailyLimit'' = Some (JInt l))"
    by blast
next
  assume h: "\<not> connect_fault e \<and> \<not> missing (tts_text q) \<and> tts_admitted (admitTTS s e (tts_user q)) \<and>
    (r = Tts_Unreachable \<or> (\<exists>st body. r = Tts_Reply st body \<and> \<not> ok st))"
  then have o: "tts s e r q = Some (tts_try s e r q)" by (simp add: tts_def)
  from h have rq: "resp (tts_try s e r q) =
           \<lparr>status = 500,
            json = [(''error'', JStr ''Text-to-speech failed''), (''fallbackToLocal'', JBool True)]\<rparr>"
    by (simp add: tts_failed_response)
  have "status (resp (tts_try s e r q)) = 500 \<and>
        get_prop (json (resp (tts_try s e r q))) ''fallbackToLocal'' = Some (JBool True)"
    unfolding rq by (simp add: get_prop_def)
  with o show "\<exists>out. tts s e r q = Some out \<and>
         status (resp out) = 500 \<and>
         get_prop (json (resp out)) ''fallbackToLocal'' = Some (JBool True)"
    by blast
qed

text \<open>
  C7, witness: a user with \<^verbatim>\<open>id\<close> 7 at 15 of 15 calls is answered 429 with
  \<^verbatim>\<open>fallbackToLocal: true\<close>, \<^verbatim>\<open>usedToday: 15\<close> and \<^verbatim>\<open>dailyLimit: 15\<close>; student 7 with
  the token that login signs is answered 429 with \<^verbatim>\<open>usedToday: 0\<close> and
  \<^verbatim>\<open>dailyLimit: 0\<close> where the limit is configured as 0, and 500 with
  \<^verbatim>\<open>fallbackToLocal: true\<close> on a downstream reply 503.
\<close>

theorem tts_fallback_witness:
  "\<not> connect_fault env0 \<and> \<not> missing (tts_text (tts_req_of with_id7)) \<and> \<not> read_fault env0 \<and>
   \<not> tts_admitted (admitTTS ledgerT env0 (tts_user (tts_req_of with_id7))) \<and>
   (\<exists>out. tts ledgerT env0 Tts_Unreachable (tts_req_of with_id7) = Some out \<and>
      status (resp out) = 429 \<and>
      get_prop (json (resp out)) ''fallbackToLocal'' = Some (JBool True) \<and>
      get_prop (json (resp out)) ''usedToday'' = Some (JInt 15) \<and>
      get_prop (json (resp out)) ''dailyLimit'' = Some (JInt 15)) \<and>
   \<not> tts_admitted (admitTTS ledgerL0 env0 (tts_user (tts_req_of (payload login7)))) \<and>
   (\<exists>out. tts ledgerL0 env0 Tts_Unreachable (tts_req_of (payload login7)) = Some out \<and>
      status (resp out) = 429 \<and>
      get_prop (json (resp out)) ''fallbackToLocal'' = Some (JBool True) \<and>
      get_prop (json (resp out)) ''usedToday'' = Some (JInt 0) \<and>
      get_prop (json (resp out)) ''dailyLimit'' = Some (JInt 0)) \<and>
   tts_admitted (admitTTS ledgerT env0 (tts_user (tts_req_of (payload login7)))) \<and>
   \<not> ok 503 \<and>
   (\<exists>out. tts ledgerT env0 (Tts_Reply 503 Unparsable) (tts_req_of (payload login7)) = Some out \<and>
      status (resp out) = 500 \<and>
      get_prop (json (resp out)) ''fallbackToLocal'' = Some (JBool True))"
proof -
  let ?q7 = "tts_req_of with_id7"
  let ?q = "tts_req_of (payload login7)"
  have 0: "\<not> connect_fault env0" by (simp add: env0_def)
  have 1: "\<not> missing (tts_text ?q7)" "\<not> missing (tts_text ?q)" by code_simp+
  have 2: "\<not> read_fault env0" by code_simp
  have 3: "\<not> tts_admitted (admitTTS ledgerT env0 (tts_user ?q7))" by code_simp
  have 4: "usedToday (admitTTS ledgerT env0 (tts_user ?q7)) = 15" by code_simp
  have 5: "dailyLimit (admitTTS ledgerT env0 (tts_user ?q7)) = Some 15" by code_simp
  have l0: "admitTTS ledgerL0 env0 (tts_user ?q) =
      \<lparr>tts_admitted = False, usedToday = 0, dailyLimit = Some 0\<rparr>"
    by (simp add: tts_req_of_def login7_def admitTTS_limit0)
  then have 6: "\<not> tts_admitted (admitTTS ledgerL0 env0 (tts_user ?q))" by simp
  have 7: "tts_admitted (admitTTS ledgerT env0 (tts_user ?q))" by code_simp
  have 8: "\<not> ok 503" by (simp add: ok_def)
  from 0 1 2 3 tts_fallback [of env0 ?q7 ledgerT Tts_Unreachable]
  obtain out where a: "tts ledgerT env0 Tts_Unreachable ?q7 = Some out"
     "status (resp out) = 429"
     "get_prop (json (resp out)) ''fallbackToLocal'' = Some (JBool True)"
     "get_prop (json (resp out)) ''usedToday''
        = Some (JInt (int (usedToday (admitTTS ledgerT env0 (tts_user ?q7)))))"
     "\<exists>l. dailyLimit (admitTTS ledgerT env0 (tts_user ?q7)) = Some l \<and>
              get_prop (json (resp out)) ''dailyLimit'' = Some (JInt l)"
    by blast
  from a(4) a(5) have a': "get_prop (json (resp out)) ''usedToday'' = Some (JInt 15)"
     "get_prop (json (resp out)) ''dailyLimit'' = Some (JInt 15)"
    unfolding 4 5 by auto
  from 0 1 2 6 tts_fallback [of env0 ?q ledgerL0 Tts_Unreachable]
  obtain out2 where b: "tts ledgerL0 env0 Tts_Unreachable ?q = Some out2"
     "status (resp out2) = 429"
     "get_prop (json (resp out2)) ''fallbackToLocal'' = Some (JBool True)"
     "get_prop (json (resp out2)) ''usedToday''
        = Some (JInt (int (usedToday (admitTTS ledgerL0 env0 (tts_user ?q)))))"
     "\<exists>l. dailyLimit (admitTTS ledgerL0 env0 (tts_user ?q)) = Some l \<and>
              get_prop (json (resp out2)) ''dailyLimit'' = Some (JInt l)"
    by blast
  from b(4) b(5) have b': "get_prop (json (resp out2)) ''usedToday'' = Some (JInt 0)"
     "get_prop (json (resp out2)) ''dailyLimit'' = Some (JInt 0)"
    unfolding l0 by auto
  from 0 1 7 8 tts_fallback [of env0 ?q ledgerT "Tts_Reply 503 Unparsable"]
  obtain out3 where c: "tts ledgerT env0 (Tts_Reply 503 Unparsable) ?q = Some out3"
     "status (resp out3) = 500"
     "get_prop (json (resp out3)) ''fallbackToLocal'' = Some (JBool True)"
    by blast
  from 0 1 2 3 6 7 8 a(1-3) a' b(1-3) b' c show ?thesis by blast
qed

subsection \<open>The identifier of the user\<close>

text \<open>
  C10, at the token that login signs for user 7. The token verifies and its claims
  hold \<^verbatim>\<open>userId\<close> 7, which the minutes endpoints read. They hold no \<^verbatim>\<open>id\<close>, which the
  text-to-speech endpoints read: the identifier of the quota read and of the ledger
  write is \<^verbatim>\<open>undefined\<close>, not 7. A synthesis that succeeds answers 200, its insert
  fails on the null user and is logged, and the store is unchanged.
\<close>

theorem tts_identifier_undefined:
  "authenticate 100 (Some login7) = Inr (payload login7) \<and>
   param_int (get_prop (payload login7) ''userId'') = Some 7 \<and>
   get_prop (payload login7) ''id'' = None \<and>
   param_int (get_prop (payload login7) ''id'') = None \<and>
   tts (ledgerT\<lparr>tts_usage := []\<rparr>) env0 (Tts_Reply 200 (Json_Object (Some text_abc)))
       (tts_req_of (payload login7)) =
     Some \<lparr>resp = \<lparr>status = 200,
                    json = [(''audioContent'', JText text_abc), (''usedToday'', JInt 1),
                            (''dailyLimit'', JInt 15)]\<rparr>,
           store = ledgerT\<lparr>tts_usage := []\<rparr>, logged = [''Track TTS usage error:''],
           called = True\<rparr>"
  by code_simp

text \<open>
  The rule of the check itself: it compares the count it reads with the limit it
  reads, and without a configured limit the limit is 15.
\<close>

lemma admitTTS_rule:
  "tts_admitted (admitTTS s e user) \<longleftrightarrow>
     \<not> reached (count_tts s (param_int (get_prop user ''id'')) (today e))
               (dailyLimit (admitTTS s e user))"
  "map_of (api_configs s) ''tts_daily_limit'' = None \<Longrightarrow> dailyLimit (admitTTS s e user) = Some 15"
  by (simp_all add: admitTTS_def Let_def)

lemma fixed_funpow: "f x = x \<Longrightarrow> (f ^^ n) x = x"
  by (induction n) simp_all

text \<open>
  C2, at the token that login signs for user 7, with no configured limit. With 15
  synthesis rows of user 7 on the current day, the limit used is 15, but the count the
  check reads is that of the undefined identifier, 0, and the check admits. And from
  an empty synthesis ledger, 15 successful calls of user 7 leave the ledger empty (no
  insert succeeds), and the 16th call is admitted and answered 200.
\<close>

theorem tts_admits_at_limit:
  "count_tts ledgerT (Some 7) (today env0) = 15 \<and>
   admitTTS ledgerT env0 (payload login7) =
     \<lparr>tts_admitted = True, usedToday = 0, dailyLimit = Some 15\<rparr> \<and>
   ((\<lambda>s. store_after s (tts_call s)) ^^ 15) (ledgerT\<lparr>tts_usage := []\<rparr>)
     = ledgerT\<lparr>tts_usage := []\<rparr> \<and>
   map_option (\<lambda>out. status (resp out))
     (tts_call (((\<lambda>s. store_after s (tts_call s)) ^^ 15) (ledgerT\<lparr>tts_usage := []\<rparr>)))
     = Some 200"
proof -
  have 1: "count_tts ledgerT (Some 7) (today env0) = 15 \<and>
   admitTTS ledgerT env0 (payload login7) =
     \<lparr>tts_admitted = True, usedToday = 0, dailyLimit = Some 15\<rparr>" by code_simp
  have 2: "store_after (ledgerT\<lparr>tts_usage := []\<rparr>) (tts_call (ledgerT\<lparr>tts_usage := []\<rparr>))
      = ledgerT\<lparr>tts_usage := []\<rparr>" by code_simp
  have 3: "map_option (\<lambda>out. status (resp out)) (tts_call (ledgerT\<lparr>tts_usage := []\<rparr>)) = Some 200"
    by code_simp
  have 4: "((\<lambda>s. store_after s (tts_call s)) ^^ 15) (ledgerT\<lparr>tts_usage := []\<rparr>)
      = ledgerT\<lparr>tts_usage := []\<rparr>"
    using 2 by (rule fixed_funpow)
  from 1 3 4 show ?thesis by simp
qed

subsection \<open>The limit 0\<close>

text \<open>
  For a stored limit other than 0 the check denies exactly when the monthly total has
  reached the limit, and reports both.
\<close>

lemma admitConversation_rule:
  assumes "filter (\<lambda>x. u_id x = uid) (users s) = row # rest"
    and "minutes_limit row = Some n" and "n \<noteq> 0"
    and "get_prop user ''userId'' = Some (JInt uid)"
  shows "admitConversation s e user =
           \<lparr>admitted = \<not> (of_int n \<le> monthly_total s (Some uid) (firstDayOfMonth e)),
            monthlyUsed = monthly_total s (Some uid) (firstDayOfMonth e),
            monthlyLimit = n\<rparr>"
proof -
  have "select_limit s (Some uid) = Some n # map minutes_limit rest"
    using assms(1,2) by (simp add: select_limit_def)
  then have "or_120 (select_limit s (Some uid)) = n"
    using assms(3) by (simp add: or_120_def)
  then show ?thesis using assms(4) by (simp add: admitConversation_def Let_def)
qed

text \<open>
  C3, at a user whose \<^verbatim>\<open>minutes_limit\<close> is 0 and whose monthly total is 50. The
  limit the check uses is \<^verbatim>\<open>0 || 120\<close>, that is 120, and the check admits.
\<close>

theorem zero_limit_admitted:
  "select_limit ledgerZ (Some 3) = [Some 0] \<and>
   admitConversation ledgerZ env0 decoded3 =
     \<lparr>admitted = True, monthlyUsed = 50, monthlyLimit = 120\<rparr>"
  by code_simp

subsection \<open>A recording that fails\<close>

text \<open>
  C8, at a conversation call of student 1 whose downstream reply is ok and whose
  usage write throws. The handler's catch answers 500 and the downstream answer is not
  delivered. The text-to-speech endpoint, in the same situation, logs the failure in
  \<^verbatim>\<open>trackTTSUsage\<close> and answers 200 with the audio.
\<close>

theorem chat_recording_failure_surfaces:
  "chat ledgerA (env0\<lparr>write_fault := True\<rparr>) (Reply 200 [] (Some text_abc)) req1 =
     Some \<lparr>resp = \<lparr>status = 500, json = [(''error'', JStr ''Errore durante la chat'')]\<rparr>,
           store = ledgerA, logged = [''Chat error:''], called = True\<rparr> \<and>
   tts (ledgerT\<lparr>tts_usage := []\<rparr>) (env0\<lparr>write_fault := True\<rparr>)
       (Tts_Reply 200 (Json_Object (Some text_abc))) (tts_req_of with_id7) =
     Some \<lparr>resp = \<lparr>status = 200,
                    json = [(''audioContent'', JText text_abc), (''usedToday'', JInt 1),
                            (''dailyLimit'', JInt 15)]\<rparr>,
           store = ledgerT\<lparr>tts_usage := []\<rparr>, logged = [''Track TTS usage error:''],
           called = True\<rparr>"
proof -
  have a: "admitted (admitConversation ledgerA (env0\<lparr>write_fault := True\<rparr>) decoded1)" by code_simp
  have 1: "chat ledgerA (env0\<lparr>write_fault := True\<rparr>) (Reply 200 [] (Some text_abc)) req1 =
     Some \<lparr>resp = \<lparr>status = 500, json = [(''error'', JStr ''Errore durante la chat'')]\<rparr>,
           store = ledgerA, logged = [''Chat error:''], called = True\<rparr>"
    using a by (simp add: chat_def chat_try_def chat_catch_def Let_def req1_def missing_def
                  env0_def ok_def recordMinutes_def)
  have 2: "tts (ledgerT\<lparr>tts_usage := []\<rparr>) (env0\<lparr>write_fault := True\<rparr>)
       (Tts_Reply 200 (Json_Object (Some text_abc))) (tts_req_of with_id7) =
     Some \<lparr>resp = \<lparr>status = 200,
                    json = [(''audioContent'', JText text_abc), (''usedToday'', JInt 1),
                            (''dailyLimit'', JInt 15)]\<rparr>,
           store = ledgerT\<lparr>tts_usage := []\<rparr>, logged = [''Track TTS usage error:''],
           called = True\<rparr>"
    by code_simp
  from 1 2 show ?thesis by simp
qed

subsection \<open>Two recordings at once\<close>

text \<open>
  One worker that takes its two steps on its own is the record step.
\<close>

lemma run_alone:
  "run uid d a [0, 0] (s, [Start]) =
     (case recordMinutes False s uid d a of
        Inl e \<Rightarrow> (s, [Failed e])
      | Inr s' \<Rightarrow> (s', [Done]))"
  by (simp add: worker_step_def recordMinutes_def split: list.splits sum.splits)

text \<open>
  C9, at two workers that record 1 minute for user 1 on day 5, with no row yet, in
  the order select, select, write, write. Both select no row; the first insert makes
  the row, the second violates \<^verbatim>\<open>unique_user_date\<close> and its worker fails. The stored
  total is 1, not 2.
\<close>

theorem concurrent_insert_lost:
  "run (Some 1) 5 1 [0, 1, 0, 1] (ledger0, [Start, Start]) =
     (ledger0\<lparr>usage := [\<lparr>row_id = 1, user_id = 1, date = 5, minutes_used = 1\<rparr>]\<rparr>,
      [Done, Failed Unique_Violation]) \<and>
   stored (fst (run (Some 1) 5 1 [0, 1, 0, 1] (ledger0, [Start, Start]))) 1 5 = Some 1"
  by code_simp

text \<open>
  If the record step were one atomic statement, every interleaving of \<open>N\<close> recordings
  of 1 minute would be a sequence of \<open>N\<close> record steps, and the total would grow by \<open>N\<close>.
\<close>

lemma atomic_recordings_total:
  assumes "wf_usage s" and "u \<in> set (map u_id (users s))"
    and "prev s u d + of_nat N < 10 ^ 8" and "0 < N"
  shows "stored (record_seq s u d (replicate N 1)) u d = Some (prev s u d + of_nat N)"
proof -
  from assms(4) obtain M where N: "N = Suc M" by (cases N) auto
  have h: "\<forall>x \<in> set (1 # replicate M (1::rat)). hundredths x \<and> 0 < x"
    by (auto intro: hundredthsI [of _ 100])
  have s: "sum_list (1 # replicate M (1::rat)) = of_nat N"
    by (simp add: N sum_list_replicate)
  from record_seq_stored [OF assms(1,2) h, of d] assms(3) s show ?thesis
    by (simp add: N)
qed

subsection \<open>Admins\<close>

text \<open>
  C1, counterexample to the claim as stated. The admin created by registration, whose
  limit is 999999, with a monthly total of 999999, is denied by the conversation check
  and answered 429. The same admin, with the token that login signs, is denied by the
  text-to-speech check and answered 429 where the daily limit is configured as 0.
\<close>

theorem admin_denied_counterexample:
  "map u_role (users ledgerAdmin) = [Admin] \<and>
   admitConversation ledgerAdmin env0 decoded2 =
     \<lparr>admitted = False, monthlyUsed = 999999, monthlyLimit = 999999\<rparr> \<and>
   chat ledgerAdmin env0 (Reply 200 [] (Some text_abc))
        \<lparr>chat_user = decoded2, message = Some [104, 105]\<rparr> =
     Some \<lparr>resp = \<lparr>status = 429,
                    json = [(''error'', JStr ''Limite mensile raggiunto''),
                            (''minutes_used'', JDec 999999), (''minutes_limit'', JInt 999999)]\<rparr>,
           store = ledgerAdmin, logged = [], called = False\<rparr> \<and>
   filter (\<lambda>x. u_id x = 2) (users ledgerL0)
     = [\<lparr>u_id = 2, u_role = Admin, minutes_limit = Some 999999\<rparr>] \<and>
   admitTTS ledgerL0 env0 decoded2 = \<lparr>tts_admitted = False, usedToday = 0, dailyLimit = Some 0\<rparr> \<and>
   tts ledgerL0 env0 (Tts_Reply 200 (Json_Object (Some text_abc))) (tts_req_of decoded2) =
     Some \<lparr>resp = \<lparr>status = 429,
                    json = [(''error'', JStr ''Daily premium TTS limit reached''),
                            (''usedToday'', JInt 0), (''dailyLimit'', JInt 0),
                            (''fallbackToLocal'', JBool True)]\<rparr>,
           store = ledgerL0, logged = [], called = False\<rparr>"
proof -
  have 1: "map u_role (users ledgerAdmin) = [Admin] \<and>
   admitConversation ledgerAdmin env0 decoded2 =
     \<lparr>admitted = False, monthlyUsed = 999999, monthlyLimit = 999999\<rparr> \<and>
   chat ledgerAdmin env0 (Reply 200 [] (Some text_abc))
        \<lparr>chat_user = decoded2, message = Some [104, 105]\<rparr> =
     Some \<lparr>resp = \<lparr>status = 429,
                    json = [(''error'', JStr ''Limite mensile raggiunto''),
                            (''minutes_used'', JDec 999999), (''minutes_limit'', JInt 999999)]\<rparr>,
           store = ledgerAdmin, logged = [], called = False\<rparr>" by code_simp
  have 2: "filter (\<lambda>x. u_id x = 2) (users ledgerL0)
     = [\<lparr>u_id = 2, u_role = Admin, minutes_limit = Some 999999\<rparr>]" by (simp add: ledgerL0_def)
  have 3: "admitTTS ledgerL0 env0 decoded2 =
      \<lparr>tts_admitted = False, usedToday = 0, dailyLimit = Some 0\<rparr>"
    by (simp add: decoded2_def admitTTS_limit0)
  have 4: "tts ledgerL0 env0 (Tts_Reply 200 (Json_Object (Some text_abc))) (tts_req_of decoded2) =
     Some \<lparr>resp = \<lparr>status = 429,
                    json = [(''error'', JStr ''Daily premium TTS limit reached''),
                            (''usedToday'', JInt 0), (''dailyLimit'', JInt 0),
                            (''fallbackToLocal'', JBool True)]\<rparr>,
           store = ledgerL0, logged = [], called = False\<rparr>"
  proof -
    have e: "\<not> connect_fault env0" "\<not> read_fault env0" by (simp_all add: env0_def)
    show ?thesis by (simp add: tts_def tts_try_def Let_def tts_req_of_def missing_def e 3)
  qed
  from 1 2 3 4 show ?thesis by simp
qed

text \<open>
  C1, as amended. The admission checks do not consult the role. For a user whose role
  is admin and whose stored \<^verbatim>\<open>minutes_limit\<close> is a number \<open>n\<close> other than 0 (999999
  after registration as admin), the conversation check admits exactly when the monthly
  total is below \<open>n\<close>. The text-to-speech check admits such a user exactly when the
  number of synthesis rows of the current day that it counts for the identifier it
  reads from the token is below the daily limit; the limit is the configured value
  read as an integer, 15 when none is configured, and a configured value that is not
  a number denies nobody.
\<close>

theorem admin_admission:
  assumes "filter (\<lambda>x. u_id x = uid) (users s) = row # rest"
    and "u_role row = Admin"
    and "minutes_limit row = Some n" and "n \<noteq> 0"
    and "get_prop user ''userId'' = Some (JInt uid)"
  shows "(admitted (admitConversation s e user) \<longleftrightarrow>
            monthly_total s (Some uid) (firstDayOfMonth e) < of_int n) \<and>
         dailyLimit (admitTTS s e user) =
           (case map_of (api_configs s) ''tts_daily_limit'' of
              None \<Rightarrow> Some 15
            | Some config_value \<Rightarrow> parseInt config_value) \<and>
         usedToday (admitTTS s e user) =
           count_tts s (param_int (get_prop user ''id'')) (today e) \<and>
         (tts_admitted (admitTTS s e user) \<longleftrightarrow>
            (case dailyLimit (admitTTS s e user) of
               None \<Rightarrow> True
             | Some l \<Rightarrow> int (usedToday (admitTTS s e user)) < l))"
proof -
  have "select_limit s (Some uid) = Some n # map minutes_limit rest"
    using assms(1,3) by (simp add: select_limit_def)
  then have "or_120 (select_limit s (Some uid)) = n"
    using assms(4) by (simp add: or_120_def)
  then have "admitted (admitConversation s e user) \<longleftrightarrow>
            monthly_total s (Some uid) (firstDayOfMonth e) < of_int n"
    using assms(5) by (simp add: admitConversation_def Let_def not_le)
  moreover have "tts_admitted (admitTTS s e user) \<longleftrightarrow>
            (case dailyLimit (admitTTS s e user) of
               None \<Rightarrow> True
             | Some l \<Rightarrow> int (usedToday (admitTTS s e user)) < l)"
    by (simp add: admitTTS_def Let_def reached_def not_le split: option.splits)
  ultimately show ?thesis by (simp add: admitTTS_def Let_def)
qed

text \<open>
  C1, witness: the admin created by registration, with no usage and no configured
  daily limit, is admitted by both checks.
\<close>

theorem admin_admission_witness:
  "filter (\<lambda>x. u_id x = 2) (users (ledgerAdmin\<lparr>usage := []\<rparr>))
     = [\<lparr>u_id = 2, u_role = Admin, minutes_limit = Some 999999\<rparr>] \<and>
   get_prop decoded2 ''userId'' = Some (JInt 2) \<and>
   monthly_total (ledgerAdmin\<lparr>usage := []\<rparr>) (Some 2) (firstDayOfMonth env0) < 999999 \<and>
   admitted (admitConversation (ledgerAdmin\<lparr>usage := []\<rparr>) env0 decoded2) \<and>
   dailyLimit (admitTTS (ledgerAdmin\<lparr>usage := []\<rparr>) env0 decoded2) = Some 15 \<and>
   usedToday (admitTTS (ledgerAdmin\<lparr>usage := []\<rparr>) env0 decoded2) = 0 \<and>
   tts_admitted (admitTTS (ledgerAdmin\<lparr>usage := []\<rparr>) env0 decoded2)"
proof -
  let ?s = "ledgerAdmin\<lparr>usage := []\<rparr>"
  let ?row = "\<lparr>u_id = 2, u_role = Admin, minutes_limit = Some 999999\<rparr>"
  have 1: "filter (\<lambda>x. u_id x = 2) (users ?s) = ?row # []" by (simp add: ledgerAdmin_def)
  have 2: "u_role ?row = Admin" by simp
  have 3: "minutes_limit ?row = Some 999999" by simp
  have 4: "(999999::int) \<noteq> 0" by simp
  have 5: "get_prop decoded2 ''userId'' = Some (JInt 2)" by code_simp
  have 6: "monthly_total ?s (Some 2) (firstDayOfMonth env0) < 999999"
    by (simp add: monthly_total_def)
  have 7: "map_of (api_configs ?s) ''tts_daily_limit'' = None" by (simp add: ledgerAdmin_def)
  have 8: "count_tts ?s (param_int (get_prop decoded2 ''id'')) (today env0) = 0"
    by (simp add: count_tts_def ledgerAdmin_def)
  note t = admin_admission [OF 1 2 3 4 5, of env0]
  from t [THEN conjunct1] 6 have a: "admitted (admitConversation ?s env0 decoded2)" by simp
  from t [THEN conjunct2, THEN conjunct1] 7
  have b: "dailyLimit (admitTTS ?s env0 decoded2) = Some 15" by simp
  from t [THEN conjunct2, THEN conjunct2, THEN conjunct1] 8
  have c: "usedToday (admitTTS ?s env0 decoded2) = 0" by simp
  from t [THEN conjunct2, THEN conjunct2, THEN conjunct2] b c
  have d: "tts_admitted (admitTTS ?s env0 decoded2)" by simp
  from 1 5 6 a b c d show ?thesis by simp
qed

end
